theory Spec2Isabelle
  imports Complex_Main
begin

section \<open>Values and the progress table\<close>

text \<open>
  JSON values as Python sees them after \<open>json.loads\<close>: request bodies, callback payloads
  and the \<open>result\<close> attribute of the progress item. A dict is an association list whose
  keys are distinct; \<open>json.dumps\<close> followed by \<open>json.loads\<close> gives the value back, so a
  payload is carried as the value itself.
\<close>

datatype json =
    JNull
  | JBool bool
  | JNum real
  | JStr string
  | JArr "json list"
  | JObj "(string \<times> json) list"

text \<open>Python truthiness, as used by \<open>if not x\<close>.\<close>

fun truthy :: "json \<Rightarrow> bool" where
  "truthy JNull = False"
| "truthy (JBool b) = b"
| "truthy (JNum x) = (x \<noteq> 0)"
| "truthy (JStr s) = (s \<noteq> [])"
| "truthy (JArr xs) = (xs \<noteq> [])"
| "truthy (JObj kvs) = (kvs \<noteq> [])"

text \<open>\<open>d.get(key, default)\<close>.\<close>

definition dict_get :: "(string \<times> json) list \<Rightarrow> string \<Rightarrow> json \<Rightarrow> json" where
  "dict_get d k dflt = (case map_of d k of None \<Rightarrow> dflt | Some v \<Rightarrow> v)"

text \<open>
  One entry of the \<open>logs\<close> list. The timestamp is a reading of an abstract clock in place of
  the ISO-8601 text of \<open>datetime.now\<close>.
\<close>

record log_entry =
  le_timestamp :: nat
  le_step :: string
  le_message :: string
  le_level :: string

text \<open>
  The DynamoDB item of one application. Every attribute may be absent (\<open>None\<close>):
  \<open>update_item\<close> creates the item with only the attributes it sets.
\<close>

record item =
  it_status :: "string option"
  it_current_step :: "string option"
  it_applicant_name :: "string option"
  it_loan_amount :: "real option"
  it_logs :: "log_entry list option"
  it_result :: "json option"
  it_created_at :: "nat option"
  it_updated_at :: "nat option"
  it_callback_id :: "string option"

definition empty_item :: item where
  "empty_item = \<lparr>it_status = None, it_current_step = None, it_applicant_name = None,
     it_loan_amount = None, it_logs = None, it_result = None, it_created_at = None,
     it_updated_at = None, it_callback_id = None\<rparr>"

text \<open>
  What the workflow and the API can touch outside themselves: the progress table, the
  asynchronous invocations sent to the fraud-check function (their payloads, oldest first)
  and the clock.
\<close>

record world =
  table :: "string \<Rightarrow> item option"
  invoked :: "json list"
  clock :: nat

definition logs_of :: "item option \<Rightarrow> log_entry list" where
  "logs_of existing =
     (case existing of None \<Rightarrow> []
      | Some it \<Rightarrow> (case it_logs it of None \<Rightarrow> [] | Some ls \<Rightarrow> ls))"

section \<open>Progress logging (loan\_demo.py)\<close>

text \<open>
  \<open>log_progress\<close>: one \<open>update_item\<close> that appends the entry to \<open>logs\<close>
  (\<open>list_append(if_not_exists(logs, []), [entry])\<close>), sets \<open>current_step\<close>, \<open>status\<close> and
  \<open>updated_at\<close>, and sets \<open>result\<close> only when one is given.
\<close>

definition log_progress ::
  "string \<Rightarrow> string \<Rightarrow> string \<Rightarrow> string \<Rightarrow> string \<Rightarrow> json option \<Rightarrow> world \<Rightarrow> world" where
  "log_progress application_id step message status level result w =
     (let timestamp = clock w;
          entry = \<lparr>le_timestamp = timestamp, le_step = step, le_message = message,
                   le_level = level\<rparr>;
          old = (case table w application_id of None \<Rightarrow> empty_item | Some it \<Rightarrow> it);
          it1 = old\<lparr>it_logs := Some (logs_of (table w application_id) @ [entry]),
                    it_current_step := Some step,
                    it_status := Some status,
                    it_updated_at := Some timestamp\<rparr>;
          it2 = (case result of None \<Rightarrow> it1 | Some r \<Rightarrow> it1\<lparr>it_result := Some r\<rparr>)
      in w\<lparr>table := (table w)(application_id \<mapsto> it2), clock := Suc (clock w)\<rparr>)"

text \<open>
  The replay detector of \<open>lambda_handler\<close>: \<open>prior_counts\<close> tallies the entries per step
  that the item held when the invocation started, \<open>call_counts\<close> counts the calls of
  \<open>log\<close> per step in this invocation. The inner function \<open>log\<close> is \<open>log_call\<close> here
  (\<open>log\<close> is the logarithm of the library); it takes the two counters explicitly and
  returns the updated \<open>call_counts\<close> with the world.
\<close>

type_synonym counts = "string \<Rightarrow> nat"

text \<open>The empty \<open>Counter()\<close>.\<close>

definition no_calls :: counts where
  "no_calls = (\<lambda>_. 0)"

definition prior_counts_of :: "item option \<Rightarrow> counts" where
  "prior_counts_of existing step = length (filter (\<lambda>e. le_step e = step) (logs_of existing))"

definition log_call ::
  "counts \<Rightarrow> string \<Rightarrow> string \<Rightarrow> string \<Rightarrow> string \<Rightarrow> string \<Rightarrow> json option \<Rightarrow>
   counts \<times> world \<Rightarrow> counts \<times> world" where
  "log_call prior_counts application_id step message status level result s =
     (let call_counts = (fst s)(step := fst s step + 1)
      in if call_counts step \<le> prior_counts step
         then (call_counts,
               log_progress application_id step (''[REPLAY] '' @ message) status ''replay''
                 result (snd s))
         else (call_counts,
               log_progress application_id step message status level result (snd s)))"

section \<open>Errors and outcomes\<close>

datatype error =
    BadRequestError string
  | NotFoundError string
  | ClientError string
  | ValueError string
  | KeyError string
  | AttributeError string
  | ZeroDivisionError
  | CallbackError string

text \<open>\<open>str(error)\<close>, as the handler writes it into the log.\<close>

fun str_error :: "error \<Rightarrow> string" where
  "str_error (BadRequestError m) = m"
| "str_error (NotFoundError m) = m"
| "str_error (ClientError m) = m"
| "str_error (ValueError m) = m"
| "str_error (KeyError k) = [CHR 0x27] @ k @ [CHR 0x27]"
| "str_error (AttributeError m) = m"
| "str_error ZeroDivisionError = ''division by zero''"
| "str_error (CallbackError m) = m"

text \<open>
  How one invocation of the durable handler ends: it returns, it suspends
  (\<open>SuspendExecution\<close>, which is not an \<open>Exception\<close> and so passes the handler's
  \<open>except Exception\<close>), or it raises.
\<close>

datatype 'a exec = Done 'a | Suspend | Raise error

section \<open>The orchestration host, by its contract\<close>

text \<open>
  The durable-execution runtime is not part of the repository. It is modelled by the
  contract the workflow relies on. A callback is created once per name and execution, with
  an identifier chosen by the host (\<open>mint\<close>); the submitter runs when the callback is
  created and not again on replay; the call suspends while the callback is pending,
  returns the payload once a success was sent, and raises once the host timed it out.
  \<open>context.step\<close> returns the value of its step: the steps of this workflow are functions
  of their arguments, so a checkpointed result and a recomputed one agree.
\<close>

datatype callback_state = Pending | Succeeded json | TimedOut

record callback =
  cb_name :: string
  cb_id :: string
  cb_timeout_minutes :: nat
  cb_state :: callback_state

record durable =
  callbacks :: "callback list"
  mint :: "string \<Rightarrow> string"

definition find_callback :: "durable \<Rightarrow> string \<Rightarrow> callback option" where
  "find_callback d name = find (\<lambda>c. cb_name c = name) (callbacks d)"

definition wait_for_callback ::
  "(string \<Rightarrow> world \<Rightarrow> world) \<Rightarrow> string \<Rightarrow> nat \<Rightarrow> world \<times> durable \<Rightarrow>
   json exec \<times> world \<times> durable" where
  "wait_for_callback submitter name timeout_minutes s =
     (case find_callback (snd s) name of
        None \<Rightarrow>
          (let callback_id = mint (snd s) name;
               c = \<lparr>cb_name = name, cb_id = callback_id,
                    cb_timeout_minutes = timeout_minutes, cb_state = Pending\<rparr>
           in (Suspend, submitter callback_id (fst s),
               (snd s)\<lparr>callbacks := callbacks (snd s) @ [c]\<rparr>))
      | Some c \<Rightarrow>
          (case cb_state c of
             Pending \<Rightarrow> (Suspend, fst s, snd s)
           | Succeeded payload \<Rightarrow> (Done payload, fst s, snd s)
           | TimedOut \<Rightarrow>
               (Raise (CallbackError (''Callback timed out: '' @ name)), fst s, snd s)))"

text \<open>
  \<open>SendDurableExecutionCallbackSuccess\<close>: the host completes the pending callback with
  that identifier, and refuses the call (\<open>None\<close>, an exception in the client) when no
  callback with that identifier is pending.
\<close>

fun complete_pending :: "string \<Rightarrow> json \<Rightarrow> callback list \<Rightarrow> callback list option" where
  "complete_pending cid payload [] = None"
| "complete_pending cid payload (c # cs) =
     (if cb_id c = cid \<and> cb_state c = Pending
      then Some (c\<lparr>cb_state := Succeeded payload\<rparr> # cs)
      else map_option ((#) c) (complete_pending cid payload cs))"

definition send_durable_execution_callback_success ::
  "string \<Rightarrow> json \<Rightarrow> durable \<Rightarrow> durable option" where
  "send_durable_execution_callback_success cid payload d =
     map_option (\<lambda>cs. d\<lparr>callbacks := cs\<rparr>) (complete_pending cid payload (callbacks d))"

text \<open>The host's timeout of a pending callback.\<close>

definition expire :: "string \<Rightarrow> durable \<Rightarrow> durable" where
  "expire name d =
     d\<lparr>callbacks :=
         map (\<lambda>c. if cb_name c = name \<and> cb_state c = Pending
                   then c\<lparr>cb_state := TimedOut\<rparr> else c) (callbacks d)\<rparr>"

section \<open>The approval endpoint (api.py)\<close>

text \<open>
  \<open>approve\<close>, \<open>POST /approve/{applicationId}\<close>, with the parsed JSON object of the
  request as \<open>body\<close>. An item read from the table always holds its key, so \<open>not item\<close>
  is the missing item.
\<close>

definition no_pending :: error where
  "no_pending = BadRequestError ''No pending approval for this application''"

text \<open>The dict \<open>callback_result\<close> that \<open>approve\<close> builds from the body.\<close>

definition callback_result :: "(string \<times> json) list \<Rightarrow> (string \<times> json) list" where
  "callback_result body =
     (let approved = dict_get body ''approved'' (JBool False)
      in [(''approved'', approved)] @
         (if \<not> truthy approved
          then [(''reason'',
                 dict_get body ''reason'' (JStr ''Manager denied the application''))]
          else []))"

definition approve ::
  "string \<Rightarrow> (string \<times> json) list \<Rightarrow> world \<times> durable \<Rightarrow>
   (error + (string \<times> json) list) \<times> world \<times> durable" where
  "approve applicationId body s =
     (if applicationId = [] then (Inl (BadRequestError ''Missing applicationId''), s)
      else
        let approved = dict_get body ''approved'' (JBool False)
        in case table (fst s) applicationId of
             None \<Rightarrow> (Inl (NotFoundError ''Application not found''), s)
           | Some it \<Rightarrow>
               (case it_callback_id it of
                  None \<Rightarrow> (Inl no_pending, s)
                | Some callback_id \<Rightarrow>
                    if callback_id = [] then (Inl no_pending, s)
                    else
                      case send_durable_execution_callback_success callback_id
                             (JObj (callback_result body)) (snd s) of
                           None \<Rightarrow> (Inl (ClientError ''callback refused''), s)
                         | Some d' \<Rightarrow>
                             (Inr [(''status'', JStr ''approval_sent''),
                                   (''approved'', approved)],
                              (fst s)\<lparr>table :=
                                 (table (fst s))(applicationId \<mapsto>
                                    it\<lparr>it_callback_id := None\<rparr>)\<rparr>,
                              d')))"

section \<open>The fraud-check service (fraud\_check.py)\<close>

definition fraud_result :: "(string \<times> json) list" where
  "fraud_result = [(''fraud_check'', JStr ''passed''), (''risk_indicators'', JNum 0),
                   (''checked_by'', JStr ''FraudCheckService-v2'')]"

definition fraud_check_handler ::
  "(string \<times> json) list \<Rightarrow> durable \<Rightarrow> (error + (string \<times> json) list) \<times> durable" where
  "fraud_check_handler event d =
     (case map_of event ''callback_id'' of
        None \<Rightarrow> (Inl (KeyError ''callback_id''), d)
      | Some (JStr callback_id) \<Rightarrow>
          (case send_durable_execution_callback_success callback_id (JObj fraud_result) d of
             None \<Rightarrow> (Inl (ClientError ''callback refused''), d)
           | Some d' \<Rightarrow>
               (Inr [(''status'', JStr ''callback_sent''),
                     (''callback_id'', JStr callback_id),
                     (''application_id'',
                      dict_get event ''application_id'' (JStr ''Unknown''))], d'))
      | Some _ \<Rightarrow> (Inl (ClientError ''callback id is not a string''), d))"

section \<open>The workflow steps (loan\_demo.py)\<close>

text \<open>
  What the steps take from Python's library is a parameter of the model: the three draws
  of the MD5-seeded generator for a seed text (score, derogatory marks, open accounts),
  the SHA-256 hex digest, \<open>round\<close>, and the formatting of numbers in f-strings. Amounts and
  rates are reals; the rounding of floating-point arithmetic is not modelled.
\<close>

record py =
  credit_draw :: "string \<Rightarrow> int \<times> int \<times> int"
  sha256_hexdigest :: "string \<Rightarrow> string"
  py_round :: "real \<Rightarrow> nat \<Rightarrow> real"
  str_int :: "int \<Rightarrow> string"
  str_float :: "real \<Rightarrow> string"
  fmt_money :: "real \<Rightarrow> string"
  str_json :: "json \<Rightarrow> string"

definition em_dash :: string where
  "em_dash = [CHR 0xE2, CHR 0x80, CHR 0x94]"

definition upper_char :: "char \<Rightarrow> char" where
  "upper_char c =
     (if (97::nat) \<le> of_char c \<and> of_char c \<le> (122::nat)
      then char_of (of_char c - (32::nat)) else c)"

fun join :: "string \<Rightarrow> string list \<Rightarrow> string" where
  "join sep [] = []"
| "join sep [x] = x"
| "join sep (x # y # ys) = x @ sep @ join sep (y # ys)"

definition list_repr :: "string list \<Rightarrow> string" where
  "list_repr xs = ''['' @ join '', '' (map (\<lambda>x. [CHR 0x27] @ x @ [CHR 0x27]) xs) @ '']''"

text \<open>
  The event of the workflow, with the types \<open>apply\<close> gives its fields; a field may be
  missing. \<open>address\<close> and \<open>phone\<close> are never read.
\<close>

record application =
  ev_application_id :: "string option"
  ev_applicant_name :: "string option"
  ev_ssn_last4 :: "string option"
  ev_annual_income :: "real option"
  ev_loan_amount :: "real option"
  ev_loan_purpose :: "string option"

text \<open>
  The results of the steps. Their time stamps (\<open>validated_at\<close>, \<open>pulled_at\<close>,
  \<open>generated_at\<close>, \<open>funded_at\<close>) are never read by the handler and are left out.
\<close>

record validated =
  v_application_id :: string
  v_applicant_name :: string
  v_ssn_last4 :: string
  v_annual_income :: real
  v_loan_amount :: real
  v_loan_purpose :: string
  v_estimated_dti :: real
  v_status :: string

definition get_scenario_decision :: "string \<Rightarrow> real \<Rightarrow> string" where
  "get_scenario_decision ssn_last4 loan_amount =
     (if ssn_last4 = ''1111'' then ''approved''
      else if ssn_last4 = ''2222'' then ''denied''
      else if ssn_last4 = ''3333''
        then (if loan_amount \<le> 25000 then ''approved'' else ''denied'')
      else ''approved'')"

definition missing_fields :: "application \<Rightarrow> string list" where
  "missing_fields a =
     (if ev_application_id a = None then [''application_id''] else []) @
     (if ev_applicant_name a = None then [''applicant_name''] else []) @
     (if ev_ssn_last4 a = None then [''ssn_last4''] else []) @
     (if ev_annual_income a = None then [''annual_income''] else []) @
     (if ev_loan_amount a = None then [''loan_amount''] else []) @
     (if ev_loan_purpose a = None then [''loan_purpose''] else [])"

definition validate_application :: "py \<Rightarrow> application \<Rightarrow> error + validated" where
  "validate_application e a =
     (case (ev_application_id a, ev_applicant_name a, ev_ssn_last4 a,
            ev_annual_income a, ev_loan_amount a, ev_loan_purpose a) of
        (Some aid, Some name, Some ssn, Some income, Some loan_amount, Some purpose) \<Rightarrow>
          if loan_amount \<le> 0 then Inl (ValueError ''Loan amount must be positive'')
          else if income \<le> 0 then Inl (ValueError ''Annual income must be positive'')
          else
            let dti_estimate = (loan_amount * 0.05) / (income / 12)
            in Inr \<lparr>v_application_id = aid, v_applicant_name = name, v_ssn_last4 = ssn,
                    v_annual_income = income, v_loan_amount = loan_amount,
                    v_loan_purpose = purpose,
                    v_estimated_dti = py_round e dti_estimate 2,
                    v_status = ''validated''\<rparr>
      | _ \<Rightarrow>
          Inl (ValueError (''Missing required fields: '' @ list_repr (missing_fields a))))"

record credit_report =
  cr_bureau :: string
  cr_score :: int
  cr_report_id :: string
  cr_derogatory_marks :: int
  cr_open_accounts :: int

definition pull_credit_report :: "py \<Rightarrow> string \<Rightarrow> string \<Rightarrow> credit_report" where
  "pull_credit_report e bureau ssn_last4 =
     (case credit_draw e (bureau @ ''-'' @ ssn_last4) of
        (score, derogatory, accounts) \<Rightarrow>
          \<lparr>cr_bureau = bureau, cr_score = score,
           cr_report_id =
             map upper_char (take 3 bureau) @ ''-'' @ ssn_last4 @ ''-'' @ str_int e score,
           cr_derogatory_marks = derogatory, cr_open_accounts = accounts\<rparr>)"

record risk =
  rk_average_score :: real
  rk_min_score :: int
  rk_max_score :: int
  rk_total_derogatory_marks :: int
  rk_risk_tier :: string
  rk_base_rate :: real
  rk_decision :: string

definition calculate_risk_score ::
  "py \<Rightarrow> credit_report list \<Rightarrow> string \<Rightarrow> real \<Rightarrow> error + risk" where
  "calculate_risk_score e credit_reports ssn_last4 loan_amount =
     (case map cr_score credit_reports of
        [] \<Rightarrow> Inl ZeroDivisionError
      | sc # scs \<Rightarrow>
          let scores = sc # scs;
              avg_score = real_of_int (sum_list scores) / real (length scores);
              total_derogatory = sum_list (map cr_derogatory_marks credit_reports);
              tier_rate =
                (if avg_score \<ge> 740 \<and> total_derogatory = 0 then (''prime'', 5.25)
                 else if avg_score \<ge> 670 then (''near-prime'', 7.50)
                 else if avg_score \<ge> 580 then (''subprime'', 11.00)
                 else (''deep-subprime'', 15.00));
              decision = get_scenario_decision ssn_last4 loan_amount
          in Inr \<lparr>rk_average_score = py_round e avg_score 1,
                  rk_min_score = fold min scs sc,
                  rk_max_score = fold max scs sc,
                  rk_total_derogatory_marks = total_derogatory,
                  rk_risk_tier = fst tier_rate,
                  rk_base_rate = snd tier_rate,
                  rk_decision = decision\<rparr>)"

record offer =
  of_offer_id :: string
  of_application_id :: string
  of_loan_amount :: real
  of_annual_rate :: real
  of_term_months :: nat
  of_monthly_payment :: real
  of_total_interest :: real
  of_status :: string

definition generate_loan_offer :: "py \<Rightarrow> validated \<Rightarrow> risk \<Rightarrow> offer" where
  "generate_loan_offer e app rk =
     (let rate = rk_base_rate rk;
          loan_amount = v_loan_amount app;
          term_months = 60;
          monthly_rate = rate / 100 / 12;
          payment =
            (if monthly_rate > 0
             then loan_amount * (monthly_rate * (1 + monthly_rate) ^ term_months)
                    / ((1 + monthly_rate) ^ term_months - 1)
             else loan_amount / real term_months);
          offer_id =
            take 10 (sha256_hexdigest e
              (''offer-'' @ v_application_id app @ ''-'' @ str_float e rate))
      in \<lparr>of_offer_id = ''OFFER-'' @ map upper_char offer_id,
          of_application_id = v_application_id app,
          of_loan_amount = loan_amount,
          of_annual_rate = rate,
          of_term_months = term_months,
          of_monthly_payment = py_round e payment 2,
          of_total_interest = py_round e (payment * real term_months - loan_amount) 2,
          of_status = ''offer_generated''\<rparr>)"

record disbursement =
  ds_offer_id :: string
  ds_disbursement_ref :: string
  ds_amount_disbursed :: real
  ds_status :: string

definition disburse_funds :: "offer \<Rightarrow> disbursement" where
  "disburse_funds off =
     \<lparr>ds_offer_id = of_offer_id off,
      ds_disbursement_ref =
        ''DSB-'' @ drop (length (of_offer_id off) - 6) (of_offer_id off),
      ds_amount_disbursed = of_loan_amount off,
      ds_status = ''funded''\<rparr>"

section \<open>The durable handler (loan\_demo.py)\<close>

text \<open>
  The two submitters handed to \<open>wait_for_callback\<close>. The one of the manager approval
  stores the callback identifier in the item; the one of the fraud check invokes the
  fraud-check function asynchronously with the identifier in the payload.
\<close>

definition submit_manager_approval :: "string \<Rightarrow> string \<Rightarrow> world \<Rightarrow> world" where
  "submit_manager_approval application_id callback_id w =
     (let old = (case table w application_id of None \<Rightarrow> empty_item | Some it \<Rightarrow> it)
      in w\<lparr>table := (table w)(application_id \<mapsto> old\<lparr>it_callback_id := Some callback_id\<rparr>)\<rparr>)"

definition submit_fraud_check :: "string \<Rightarrow> string \<Rightarrow> string \<Rightarrow> world \<Rightarrow> world" where
  "submit_fraud_check application_id applicant_name callback_id w =
     w\<lparr>invoked := invoked w @
          [JObj [(''callback_id'', JStr callback_id),
                 (''application_id'', JStr application_id),
                 (''applicant_name'', JStr applicant_name)]]\<rparr>"

text \<open>
  The three dicts that the handler returns and stores as \<open>result\<close>: after a denial by the
  risk decision, after a denial by the manager, after the disbursement.
\<close>

definition risk_denied_result :: "py \<Rightarrow> validated \<Rightarrow> risk \<Rightarrow> (string \<times> json) list" where
  "risk_denied_result e vd rk =
     [(''application_id'', JStr (v_application_id vd)),
      (''applicant_name'', JStr (v_applicant_name vd)),
      (''status'', JStr ''denied''),
      (''reason'',
       JStr (''Application denied '' @ em_dash @ '' risk tier: '' @ rk_risk_tier rk
             @ '', avg credit score: '' @ str_float e (rk_average_score rk))),
      (''risk_tier'', JStr (rk_risk_tier rk)),
      (''average_score'', JNum (rk_average_score rk))]"

definition manager_denied_result ::
  "validated \<Rightarrow> (string \<times> json) list \<Rightarrow> (string \<times> json) list" where
  "manager_denied_result vd approval_result =
     [(''application_id'', JStr (v_application_id vd)),
      (''applicant_name'', JStr (v_applicant_name vd)),
      (''status'', JStr ''denied''),
      (''reason'',
       dict_get approval_result ''reason'' (JStr ''Manager denied the application''))]"

definition approved_result :: "validated \<Rightarrow> offer \<Rightarrow> disbursement \<Rightarrow> (string \<times> json) list" where
  "approved_result vd off dis =
     [(''application_id'', JStr (v_application_id vd)),
      (''applicant_name'', JStr (v_applicant_name vd)),
      (''status'', JStr ''approved''),
      (''offer_id'', JStr (of_offer_id off)),
      (''loan_amount'', JNum (of_loan_amount off)),
      (''annual_rate'', JNum (of_annual_rate off)),
      (''monthly_payment'', JNum (of_monthly_payment off)),
      (''term_months'', JNum (real (of_term_months off))),
      (''disbursement_ref'', JStr (ds_disbursement_ref dis))]"

text \<open>
  The handler is one function in the source; here each part of its \<open>try\<close> block is a
  definition that ends in the next one. The state of an invocation is the pair of
  \<open>call_counts\<close> and the world, with the host's state beside it.
\<close>

type_synonym outcome = "(string \<times> json) list exec \<times> (counts \<times> world) \<times> durable"

text \<open>Steps 6 and 7, offer and disbursement, and the approved result.\<close>

definition offer_and_disburse ::
  "py \<Rightarrow> counts \<Rightarrow> validated \<Rightarrow> risk \<Rightarrow> counts \<times> world \<Rightarrow> durable \<Rightarrow> outcome" where
  "offer_and_disburse e prior_counts vd rk s d =
     (let lg = log_call prior_counts (v_application_id vd);
          s1 = lg ''generating_offer'' ''Generating loan offer...'' ''processing'' ''info''
                 None s;
          off = generate_loan_offer e vd rk;
          s2 = lg ''generating_offer''
                 (''Offer '' @ of_offer_id off @ '': $'' @ str_float e (of_monthly_payment off)
                  @ ''/mo at '' @ str_float e (of_annual_rate off) @ ''%'')
                 ''processing'' ''info'' None s1;
          s3 = lg ''disbursing'' ''Disbursing funds...'' ''processing'' ''info'' None s2;
          dis = disburse_funds off;
          final_result = approved_result vd off dis;
          s4 = lg ''complete'' ''Loan approved and funds disbursed!'' ''approved'' ''info''
                 (Some (JObj final_result)) s3
      in (Done final_result, s4, d))"

text \<open>Step 5, the fraud check: a suspension whose submitter invokes the external service.\<close>

definition fraud_check_step ::
  "py \<Rightarrow> counts \<Rightarrow> validated \<Rightarrow> risk \<Rightarrow> counts \<times> world \<Rightarrow> durable \<Rightarrow> outcome" where
  "fraud_check_step e prior_counts vd rk s d =
     (let lg = log_call prior_counts (v_application_id vd);
          s1 = lg ''fraud_check'' ''Requesting external fraud check service...''
                 ''processing'' ''info'' None s
      in case wait_for_callback
                (submit_fraud_check (v_application_id vd) (v_applicant_name vd))
                ''fraud-check'' 5 (snd s1, d) of
           (Suspend, w', d') \<Rightarrow> (Suspend, (fst s1, w'), d')
         | (Raise err, w', d') \<Rightarrow> (Raise err, (fst s1, w'), d')
         | (Done payload, w', d') \<Rightarrow>
             (case payload of
                JObj fraud \<Rightarrow>
                  let checked_by =
                        (case dict_get fraud ''checked_by'' (JStr ''external service'') of
                           JStr t \<Rightarrow> t | v \<Rightarrow> str_json e v);
                      s2 = lg ''fraud_check''
                             (''Fraud check passed '' @ em_dash @ '' '' @ checked_by)
                             ''processing'' ''info'' None (fst s1, w')
                  in offer_and_disburse e prior_counts vd rk s2 d'
              | _ \<Rightarrow>
                  (Raise (AttributeError ''object has no attribute get''),
                   (fst s1, w'), d')))"

text \<open>
  Step 4, the manager approval, for loans of at least 100000: a suspension whose
  submitter stores the callback identifier, then the denial or the approval.
\<close>

definition manager_approval_step ::
  "py \<Rightarrow> counts \<Rightarrow> validated \<Rightarrow> risk \<Rightarrow> counts \<times> world \<Rightarrow> durable \<Rightarrow> outcome" where
  "manager_approval_step e prior_counts vd rk s d =
     (let lg = log_call prior_counts (v_application_id vd)
      in if v_loan_amount vd \<ge> 100000 then
           let s1 = lg ''manager_approval''
                      (''Manager approval required for loans >= $100,000 (requested: $''
                       @ fmt_money e (v_loan_amount vd) @ '')'')
                      ''pending_approval'' ''info'' None s
           in case wait_for_callback (submit_manager_approval (v_application_id vd))
                     ''manager-approval'' 30 (snd s1, d) of
                (Suspend, w', d') \<Rightarrow> (Suspend, (fst s1, w'), d')
              | (Raise err, w', d') \<Rightarrow> (Raise err, (fst s1, w'), d')
              | (Done payload, w', d') \<Rightarrow>
                  (case payload of
                     JObj approval_result \<Rightarrow>
                       if \<not> truthy (dict_get approval_result ''approved'' JNull) then
                         let final_result = manager_denied_result vd approval_result;
                             s2 = lg ''manager_approval'' ''Application denied by manager''
                                    ''denied'' ''warn'' (Some (JObj final_result))
                                    (fst s1, w')
                         in (Done final_result, s2, d')
                       else
                         fraud_check_step e prior_counts vd rk
                           (lg ''manager_approval'' ''Manager approved the application''
                              ''processing'' ''info'' None (fst s1, w')) d'
                   | _ \<Rightarrow>
                       (Raise (AttributeError ''object has no attribute get''),
                        (fst s1, w'), d'))
         else fraud_check_step e prior_counts vd rk s d)"

text \<open>Steps 1 to 3 and the denied path: the body of the \<open>try\<close> block.\<close>

definition handler_try ::
  "py \<Rightarrow> application \<Rightarrow> string \<Rightarrow> counts \<Rightarrow> counts \<times> world \<Rightarrow> durable \<Rightarrow> outcome" where
  "handler_try e event application_id prior_counts s d =
     (let lg = log_call prior_counts application_id;
          s1 = lg ''validating'' ''Validating loan application...'' ''processing'' ''info''
                 None s
      in case validate_application e event of
           Inl err \<Rightarrow> (Raise err, s1, d)
         | Inr vd \<Rightarrow>
             let s2 = lg ''validating'' ''Application validated successfully''
                        ''processing'' ''info'' None s1;
                 s3 = lg ''credit_check'' ''Pulling credit reports from 3 bureaus...''
                        ''processing'' ''info'' None s2;
                 bureaus = [''equifax'', ''transunion'', ''experian''];
                 credit_reports = map (\<lambda>b. pull_credit_report e b (v_ssn_last4 vd)) bureaus;
                 scores_str =
                   join '', ''
                     (map (\<lambda>r. cr_bureau r @ ''='' @ str_int e (cr_score r)) credit_reports);
                 s4 = lg ''credit_check'' (''Credit scores received: '' @ scores_str)
                        ''processing'' ''info'' None s3;
                 s5 = lg ''risk_assessment'' ''Calculating risk score...'' ''processing''
                        ''info'' None s4
             in case calculate_risk_score e credit_reports (v_ssn_last4 vd)
                       (v_loan_amount vd) of
                  Inl err \<Rightarrow> (Raise err, s5, d)
                | Inr rk \<Rightarrow>
                    let s6 = lg ''risk_assessment''
                               (''Risk tier: '' @ rk_risk_tier rk @ '', avg score: ''
                                @ str_float e (rk_average_score rk) @ '', decision: ''
                                @ rk_decision rk)
                               ''processing'' ''info'' None s5
                    in if rk_decision rk = ''denied'' then
                         let final_result = risk_denied_result e vd rk;
                             s7 = lg ''risk_assessment'' ''Application denied'' ''denied''
                                    ''warn'' (Some (JObj final_result)) s6
                         in (Done final_result, s7, d)
                       else manager_approval_step e prior_counts vd rk s6 d)"

text \<open>
  \<open>lambda_handler\<close>: the key of the event and the read of the existing item come before
  the \<open>try\<close>; an exception of the body is logged under the step \<open>error\<close> with status
  \<open>failed\<close> and raised again; a suspension passes through.
\<close>

definition lambda_handler ::
  "py \<Rightarrow> application \<Rightarrow> world \<times> durable \<Rightarrow> (string \<times> json) list exec \<times> world \<times> durable" where
  "lambda_handler e event s =
     (case ev_application_id event of
        None \<Rightarrow> (Raise (KeyError ''application_id''), s)
      | Some application_id \<Rightarrow>
          let existing = table (fst s) application_id;
              prior_counts = prior_counts_of existing
          in case handler_try e event application_id prior_counts (no_calls, fst s) (snd s) of
               (Raise err, s', d') \<Rightarrow>
                 (Raise err,
                  snd (log_call prior_counts application_id ''error''
                         (''Workflow error: '' @ str_error err) ''failed'' ''error'' None s'),
                  d')
             | (r, s', d') \<Rightarrow> (r, snd s', d'))"

section \<open>One execution and what happens to it\<close>

text \<open>
  The events in the life of one execution of the workflow for one application: the host
  invokes (or re-invokes) the handler, the fraud-check service takes its oldest pending
  invocation and answers it, the manager's decision arrives at the approval endpoint, the
  host times a callback out.
\<close>

datatype action =
    Invoke
  | FraudService
  | Approve "(string \<times> json) list"
  | Expire string

definition sys_step ::
  "py \<Rightarrow> application \<Rightarrow> string \<Rightarrow> world \<times> durable \<Rightarrow> action \<Rightarrow> world \<times> durable" where
  "sys_step e event application_id s a =
     (case a of
        Invoke \<Rightarrow> snd (lambda_handler e event s)
      | FraudService \<Rightarrow>
          (case invoked (fst s) of
             [] \<Rightarrow> s
           | p # ps \<Rightarrow>
               ((fst s)\<lparr>invoked := ps\<rparr>,
                (case p of JObj ev \<Rightarrow> snd (fraud_check_handler ev (snd s)) | _ \<Rightarrow> snd s)))
      | Approve body \<Rightarrow> snd (approve application_id body s)
      | Expire name \<Rightarrow> (fst s, expire name (snd s)))"

definition sys_run ::
  "py \<Rightarrow> application \<Rightarrow> string \<Rightarrow> world \<times> durable \<Rightarrow> action list \<Rightarrow> world \<times> durable" where
  "sys_run e event application_id s as = foldl (sys_step e event application_id) s as"

section \<open>Observations and example inputs\<close>


definition callback_id_of :: "world \<Rightarrow> string \<Rightarrow> string option" where
  "callback_id_of w a = (case table w a of None \<Rightarrow> None | Some it \<Rightarrow> it_callback_id it)"

definition status_of :: "world \<Rightarrow> string \<Rightarrow> string option" where
  "status_of w a = (case table w a of None \<Rightarrow> None | Some it \<Rightarrow> it_status it)"

definition current_step_of :: "world \<Rightarrow> string \<Rightarrow> string option" where
  "current_step_of w a = (case table w a of None \<Rightarrow> None | Some it \<Rightarrow> it_current_step it)"

definition result_of :: "world \<Rightarrow> string \<Rightarrow> json option" where
  "result_of w a = (case table w a of None \<Rightarrow> None | Some it \<Rightarrow> it_result it)"

text \<open>The token the approval endpoint finds: a stored, non-empty \<open>callback_id\<close>.\<close>

definition stored_token :: "world \<Rightarrow> string \<Rightarrow> string option" where
  "stored_token w a =
     (case callback_id_of w a of
        None \<Rightarrow> None
      | Some c \<Rightarrow> if c = [] then None else Some c)"

text \<open>A suspension was entered (the host holds a callback of that name), is pending.\<close>

definition entered :: "durable \<Rightarrow> string \<Rightarrow> bool" where
  "entered d name = (find_callback d name \<noteq> None)"

definition suspended_at :: "durable \<Rightarrow> string \<Rightarrow> bool" where
  "suspended_at d name =
     (case find_callback d name of None \<Rightarrow> False | Some c \<Rightarrow> cb_state c = Pending)"

text \<open>
  The handler gets past step 4: the loan is below 100000, or the manager's callback
  succeeded with a truthy \<open>approved\<close>.
\<close>

definition manager_passed :: "validated \<Rightarrow> durable \<Rightarrow> bool" where
  "manager_passed vd d =
     (v_loan_amount vd < 100000 \<or>
      (case find_callback d ''manager-approval'' of
         None \<Rightarrow> False
       | Some c \<Rightarrow>
           (case cb_state c of
              Succeeded (JObj r) \<Rightarrow> truthy (dict_get r ''approved'' JNull)
            | _ \<Rightarrow> False)))"

text \<open>
  Example inputs: an environment, the event that \<open>apply\<close> sends for a given SIN and
  amount, the item that \<open>apply\<close> creates, and a host that has not created a callback yet.
\<close>

definition ex_py :: py where
  "ex_py = \<lparr>credit_draw = (\<lambda>_. (700, 0, 5)),
            sha256_hexdigest = (\<lambda>_. ''9f86d081884c7d65''),
            py_round = (\<lambda>x _. x),
            str_int = (\<lambda>_. ''700''),
            str_float = (\<lambda>_. ''7.5''),
            fmt_money = (\<lambda>_. ''150,000''),
            str_json = (\<lambda>_. ''None'')\<rparr>"

definition ex_event :: "string \<Rightarrow> real \<Rightarrow> application" where
  "ex_event ssn amount =
     \<lparr>ev_application_id = Some ''LOAN-1'', ev_applicant_name = Some ''Alice'',
      ev_ssn_last4 = Some ssn, ev_annual_income = Some 85000,
      ev_loan_amount = Some amount, ev_loan_purpose = Some ''personal_loan''\<rparr>"

text \<open>What \<open>validate_application\<close> returns for that event under \<open>ex_py\<close>.\<close>

definition ex_validated :: "string \<Rightarrow> real \<Rightarrow> validated" where
  "ex_validated ssn amount =
     \<lparr>v_application_id = ''LOAN-1'', v_applicant_name = ''Alice'', v_ssn_last4 = ssn,
      v_annual_income = 85000, v_loan_amount = amount, v_loan_purpose = ''personal_loan'',
      v_estimated_dti = (amount * 0.05) / (85000 / 12), v_status = ''validated''\<rparr>"

definition ex_item :: item where
  "ex_item =
     \<lparr>it_status = Some ''submitted'', it_current_step = Some ''submitted'',
      it_applicant_name = Some ''Alice'', it_loan_amount = Some 150000,
      it_logs = Some [\<lparr>le_timestamp = 0, le_step = ''submitted'',
                       le_message = ''Application received'', le_level = ''info''\<rparr>],
      it_result = Some JNull, it_created_at = Some 0, it_updated_at = None,
      it_callback_id = None\<rparr>"

definition ex_world :: world where
  "ex_world = \<lparr>table = [''LOAN-1'' \<mapsto> ex_item], invoked = [], clock = 1\<rparr>"

definition ex_host :: durable where
  "ex_host = \<lparr>callbacks = [], mint = (\<lambda>name. ''cb-'' @ name)\<rparr>"

text \<open>The same application while it waits for the manager.\<close>

definition ex_waiting_item :: item where
  "ex_waiting_item =
     ex_item\<lparr>it_status := Some ''pending_approval'',
             it_callback_id := Some ''cb-manager-approval''\<rparr>"

definition ex_waiting_world :: world where
  "ex_waiting_world = \<lparr>table = [''LOAN-1'' \<mapsto> ex_waiting_item], invoked = [], clock = 9\<rparr>"

definition ex_waiting_host :: durable where
  "ex_waiting_host =
     \<lparr>callbacks = [\<lparr>cb_name = ''manager-approval'', cb_id = ''cb-manager-approval'',
                    cb_timeout_minutes = 30, cb_state = Pending\<rparr>],
      mint = (\<lambda>name. ''cb-'' @ name)\<rparr>"

section \<open>What a log call does to the item\<close>


lemma callback_id_of_log_progress [simp]:
  "callback_id_of (log_progress a st m status l r w) a' = callback_id_of w a'"
  by (simp add: log_progress_def callback_id_of_def empty_item_def Let_def
        split: option.splits)

lemma invoked_log_progress [simp]:
  "invoked (log_progress a st m status l r w) = invoked w"
  by (simp add: log_progress_def Let_def)

lemma status_of_log_progress [simp]:
  "status_of (log_progress a st m status l r w) a = Some status"
  by (simp add: log_progress_def status_of_def Let_def split: option.splits)

lemma current_step_of_log_progress [simp]:
  "current_step_of (log_progress a st m status l r w) a = Some st"
  by (simp add: log_progress_def current_step_of_def Let_def split: option.splits)

lemma result_of_log_progress [simp]:
  "result_of (log_progress a st m status l r w) a =
   (case r of None \<Rightarrow> result_of w a | Some v \<Rightarrow> Some v)"
  by (simp add: log_progress_def result_of_def empty_item_def Let_def split: option.splits)

lemma snd_log_call:
  "snd (log_call p a st m status l r s) =
   (if fst s st + 1 \<le> p st
    then log_progress a st (''[REPLAY] '' @ m) status ''replay'' r (snd s)
    else log_progress a st m status l r (snd s))"
  by (simp add: log_call_def Let_def)

lemma callback_id_of_log_call [simp]:
  "callback_id_of (snd (log_call p a st m status l r s)) a' = callback_id_of (snd s) a'"
  by (simp add: snd_log_call)

lemma invoked_log_call [simp]:
  "invoked (snd (log_call p a st m status l r s)) = invoked (snd s)"
  by (simp add: snd_log_call)

lemma status_of_log_call [simp]:
  "status_of (snd (log_call p a st m status l r s)) a = Some status"
  by (simp add: snd_log_call)

lemma current_step_of_log_call [simp]:
  "current_step_of (snd (log_call p a st m status l r s)) a = Some st"
  by (simp add: snd_log_call)

lemma result_of_log_call [simp]:
  "result_of (snd (log_call p a st m status l r s)) a =
   (case r of None \<Rightarrow> result_of (snd s) a | Some v \<Rightarrow> Some v)"
  by (simp add: snd_log_call)





section \<open>The replay-aware logger\<close>




section \<open>The approval endpoint\<close>

lemma approve_accepted:
  assumes "applicationId \<noteq> []" "table w applicationId = Some it"
    "stored_token w applicationId = Some cid"
    "send_durable_execution_callback_success cid (JObj (callback_result body)) d = Some d'"
  shows "approve applicationId body (w, d) =
          (Inr [(''status'', JStr ''approval_sent''),
                (''approved'', dict_get body ''approved'' (JBool False))],
           w\<lparr>table := (table w)(applicationId \<mapsto> it\<lparr>it_callback_id := None\<rparr>)\<rparr>, d')"
  using assms
  by (auto simp add: approve_def stored_token_def callback_id_of_def Let_def
        split: option.splits if_splits)






section \<open>One invocation of the handler\<close>


lemma callback_id_of_submit_fraud_check [simp]:
  "callback_id_of (submit_fraud_check a n c w) a' = callback_id_of w a'"
  by (simp add: submit_fraud_check_def callback_id_of_def)

lemma status_of_submit_fraud_check [simp]:
  "status_of (submit_fraud_check a n c w) a' = status_of w a'"
  by (simp add: submit_fraud_check_def status_of_def)

lemma result_of_submit_fraud_check [simp]:
  "result_of (submit_fraud_check a n c w) a' = result_of w a'"
  by (simp add: submit_fraud_check_def result_of_def)

lemma table_submit_fraud_check [simp]:
  "table (submit_fraud_check a n c w) = table w"
  by (simp add: submit_fraud_check_def)

lemma invoked_submit_fraud_check [simp]:
  "invoked (submit_fraud_check a n c w) =
   invoked w @ [JObj [(''callback_id'', JStr c), (''application_id'', JStr a),
                      (''applicant_name'', JStr n)]]"
  by (simp add: submit_fraud_check_def)

lemma callback_id_of_submit_manager_approval [simp]:
  "callback_id_of (submit_manager_approval a c w) a' =
   (if a' = a then Some c else callback_id_of w a')"
  by (simp add: submit_manager_approval_def callback_id_of_def Let_def)

lemma status_of_submit_manager_approval [simp]:
  "status_of (submit_manager_approval a c w) a' = status_of w a'"
  by (simp add: submit_manager_approval_def status_of_def empty_item_def Let_def
        split: option.splits)

lemma result_of_submit_manager_approval [simp]:
  "result_of (submit_manager_approval a c w) a' = result_of w a'"
  by (simp add: submit_manager_approval_def result_of_def empty_item_def Let_def
        split: option.splits)

lemma logs_of_submit_manager_approval [simp]:
  "logs_of (table (submit_manager_approval a c w) a') = logs_of (table w a')"
  by (simp add: submit_manager_approval_def logs_of_def empty_item_def Let_def
        split: option.splits)

lemma invoked_submit_manager_approval [simp]:
  "invoked (submit_manager_approval a c w) = invoked w"
  by (simp add: submit_manager_approval_def Let_def)

lemma risk_of_three_ex:
  "\<exists>rk. calculate_risk_score e
     (map (\<lambda>b. pull_credit_report e b ssn) [''equifax'', ''transunion'', ''experian''])
     ssn amount = Inr rk \<and> rk_decision rk = get_scenario_decision ssn amount"
  by (simp add: calculate_risk_score_def Let_def)

lemma validated_id:
  "validate_application e event = Inr vd \<Longrightarrow> ev_application_id event = Some a \<Longrightarrow>
   v_application_id vd = a"
  by (auto simp add: validate_application_def Let_def split: option.splits if_splits)

lemma invoke_small_first:
  assumes "ev_application_id event = Some a"
    and "validate_application e event = Inr vd"
    and "get_scenario_decision (v_ssn_last4 vd) (v_loan_amount vd) \<noteq> ''denied''"
    and "v_loan_amount vd < 100000"
    and "find_callback d ''fraud-check'' = None"
  shows "fst (lambda_handler e event (w, d)) = Suspend \<and>
     snd (snd (lambda_handler e event (w, d))) =
       d\<lparr>callbacks := callbacks d @
          [\<lparr>cb_name = ''fraud-check'', cb_id = mint d ''fraud-check'',
            cb_timeout_minutes = 5, cb_state = Pending\<rparr>]\<rparr> \<and>
     invoked (fst (snd (lambda_handler e event (w, d)))) =
       invoked w @ [JObj [(''callback_id'', JStr (mint d ''fraud-check'')),
                          (''application_id'', JStr a),
                          (''applicant_name'', JStr (v_applicant_name vd))]] \<and>
     callback_id_of (fst (snd (lambda_handler e event (w, d)))) a = callback_id_of w a \<and>
     status_of (fst (snd (lambda_handler e event (w, d)))) a = Some ''processing''"
proof -
  from risk_of_three_ex obtain rk where
    rk: "calculate_risk_score e
     (map (\<lambda>b. pull_credit_report e b (v_ssn_last4 vd)) [''equifax'', ''transunion'', ''experian''])
     (v_ssn_last4 vd) (v_loan_amount vd) = Inr rk" and
    dec: "rk_decision rk = get_scenario_decision (v_ssn_last4 vd) (v_loan_amount vd)"
    by blast
  have a: "v_application_id vd = a" using assms(1,2) by (simp add: validated_id)
  show ?thesis
    using assms rk dec a
    by (simp add: lambda_handler_def handler_try_def manager_approval_step_def
          fraud_check_step_def wait_for_callback_def Let_def)
qed




lemma invoke_big_first:
  assumes "ev_application_id event = Some a"
    and "validate_application e event = Inr vd"
    and "get_scenario_decision (v_ssn_last4 vd) (v_loan_amount vd) \<noteq> ''denied''"
    and "v_loan_amount vd \<ge> 100000"
    and "find_callback d ''manager-approval'' = None"
  shows "fst (lambda_handler e event (w, d)) = Suspend \<and>
     snd (snd (lambda_handler e event (w, d))) =
       d\<lparr>callbacks := callbacks d @
          [\<lparr>cb_name = ''manager-approval'', cb_id = mint d ''manager-approval'',
            cb_timeout_minutes = 30, cb_state = Pending\<rparr>]\<rparr> \<and>
     invoked (fst (snd (lambda_handler e event (w, d)))) = invoked w \<and>
     callback_id_of (fst (snd (lambda_handler e event (w, d)))) a =
       Some (mint d ''manager-approval'') \<and>
     status_of (fst (snd (lambda_handler e event (w, d)))) a = Some ''pending_approval''"
proof -
  from risk_of_three_ex obtain rk where
    rk: "calculate_risk_score e
     (map (\<lambda>b. pull_credit_report e b (v_ssn_last4 vd)) [''equifax'', ''transunion'', ''experian''])
     (v_ssn_last4 vd) (v_loan_amount vd) = Inr rk" and
    dec: "rk_decision rk = get_scenario_decision (v_ssn_last4 vd) (v_loan_amount vd)"
    by blast
  have a: "v_application_id vd = a" using assms(1,2) by (simp add: validated_id)
  show ?thesis
    using assms rk dec a
    by (simp add: lambda_handler_def handler_try_def manager_approval_step_def
          wait_for_callback_def Let_def)
qed

lemma invoke_big_pending:
  assumes "ev_application_id event = Some a"
    and "validate_application e event = Inr vd"
    and "get_scenario_decision (v_ssn_last4 vd) (v_loan_amount vd) \<noteq> ''denied''"
    and "v_loan_amount vd \<ge> 100000"
    and "find_callback d ''manager-approval'' = Some c"
    and "cb_state c = Pending"
  shows "fst (lambda_handler e event (w, d)) = Suspend \<and>
     snd (snd (lambda_handler e event (w, d))) = d \<and>
     invoked (fst (snd (lambda_handler e event (w, d)))) = invoked w \<and>
     callback_id_of (fst (snd (lambda_handler e event (w, d)))) a = callback_id_of w a \<and>
     status_of (fst (snd (lambda_handler e event (w, d)))) a = Some ''pending_approval''"
proof -
  from risk_of_three_ex obtain rk where
    rk: "calculate_risk_score e
     (map (\<lambda>b. pull_credit_report e b (v_ssn_last4 vd)) [''equifax'', ''transunion'', ''experian''])
     (v_ssn_last4 vd) (v_loan_amount vd) = Inr rk" and
    dec: "rk_decision rk = get_scenario_decision (v_ssn_last4 vd) (v_loan_amount vd)"
    by blast
  have a: "v_application_id vd = a" using assms(1,2) by (simp add: validated_id)
  show ?thesis
    using assms rk dec a
    by (simp add: lambda_handler_def handler_try_def manager_approval_step_def
          wait_for_callback_def Let_def)
qed

lemma invoke_big_denied:
  assumes "ev_application_id event = Some a"
    and "validate_application e event = Inr vd"
    and "get_scenario_decision (v_ssn_last4 vd) (v_loan_amount vd) \<noteq> ''denied''"
    and "v_loan_amount vd \<ge> 100000"
    and "find_callback d ''manager-approval'' = Some c"
    and "cb_state c = Succeeded (JObj r)"
    and "\<not> truthy (dict_get r ''approved'' JNull)"
  shows "fst (lambda_handler e event (w, d)) = Done (manager_denied_result vd r) \<and>
     snd (snd (lambda_handler e event (w, d))) = d \<and>
     invoked (fst (snd (lambda_handler e event (w, d)))) = invoked w \<and>
     callback_id_of (fst (snd (lambda_handler e event (w, d)))) a = callback_id_of w a \<and>
     status_of (fst (snd (lambda_handler e event (w, d)))) a = Some ''denied'' \<and>
     result_of (fst (snd (lambda_handler e event (w, d)))) a =
       Some (JObj (manager_denied_result vd r))"
proof -
  from risk_of_three_ex obtain rk where
    rk: "calculate_risk_score e
     (map (\<lambda>b. pull_credit_report e b (v_ssn_last4 vd)) [''equifax'', ''transunion'', ''experian''])
     (v_ssn_last4 vd) (v_loan_amount vd) = Inr rk" and
    dec: "rk_decision rk = get_scenario_decision (v_ssn_last4 vd) (v_loan_amount vd)"
    by blast
  have a: "v_application_id vd = a" using assms(1,2) by (simp add: validated_id)
  show ?thesis
    using assms rk dec a
    by (simp add: lambda_handler_def handler_try_def manager_approval_step_def
          wait_for_callback_def Let_def)
qed

lemma invoke_big_approved_first:
  assumes "ev_application_id event = Some a"
    and "validate_application e event = Inr vd"
    and "get_scenario_decision (v_ssn_last4 vd) (v_loan_amount vd) \<noteq> ''denied''"
    and "v_loan_amount vd \<ge> 100000"
    and "find_callback d ''manager-approval'' = Some c"
    and "cb_state c = Succeeded (JObj r)"
    and "truthy (dict_get r ''approved'' JNull)"
    and "find_callback d ''fraud-check'' = None"
  shows "fst (lambda_handler e event (w, d)) = Suspend \<and>
     snd (snd (lambda_handler e event (w, d))) =
       d\<lparr>callbacks := callbacks d @
          [\<lparr>cb_name = ''fraud-check'', cb_id = mint d ''fraud-check'',
            cb_timeout_minutes = 5, cb_state = Pending\<rparr>]\<rparr> \<and>
     invoked (fst (snd (lambda_handler e event (w, d)))) =
       invoked w @ [JObj [(''callback_id'', JStr (mint d ''fraud-check'')),
                          (''application_id'', JStr a),
                          (''applicant_name'', JStr (v_applicant_name vd))]] \<and>
     callback_id_of (fst (snd (lambda_handler e event (w, d)))) a = callback_id_of w a \<and>
     status_of (fst (snd (lambda_handler e event (w, d)))) a = Some ''processing''"
proof -
  from risk_of_three_ex obtain rk where
    rk: "calculate_risk_score e
     (map (\<lambda>b. pull_credit_report e b (v_ssn_last4 vd)) [''equifax'', ''transunion'', ''experian''])
     (v_ssn_last4 vd) (v_loan_amount vd) = Inr rk" and
    dec: "rk_decision rk = get_scenario_decision (v_ssn_last4 vd) (v_loan_amount vd)"
    by blast
  have a: "v_application_id vd = a" using assms(1,2) by (simp add: validated_id)
  show ?thesis
    using assms rk dec a
    by (simp add: lambda_handler_def handler_try_def manager_approval_step_def
          fraud_check_step_def wait_for_callback_def Let_def)
qed


lemma validate_ex_event:
  "0 < amount \<Longrightarrow> validate_application ex_py (ex_event ssn amount) = Inr (ex_validated ssn amount)"
  by (simp add: validate_application_def ex_event_def ex_validated_def ex_py_def Let_def)


section \<open>The denied path\<close>



section \<open>Whole runs\<close>

lemma callback_id_of_invoked_update [simp]:
  "callback_id_of (w\<lparr>invoked := x\<rparr>) a = callback_id_of w a"
  by (simp add: callback_id_of_def)

lemma find_callback_fresh:
  "callbacks d = [] \<Longrightarrow> find_callback d name = None"
  by (simp add: find_callback_def)



section \<open>The threshold of the manager approval\<close>

lemma entered_after_append:
  "entered (d\<lparr>callbacks := [c]\<rparr>) name = (cb_name c = name)"
  by (simp add: entered_def find_callback_def)

lemma suspended_at_single:
  "suspended_at (d\<lparr>callbacks := [c]\<rparr>) name = (cb_name c = name \<and> cb_state c = Pending)"
  by (simp add: suspended_at_def find_callback_def)




section \<open>The manager's decision\<close>

lemma approved_of_callback_result [simp]:
  "dict_get (callback_result body) ''approved'' x = dict_get body ''approved'' (JBool False)"
  by (simp add: callback_result_def dict_get_def Let_def)

lemma reason_of_callback_result:
  "\<not> truthy (dict_get body ''approved'' (JBool False)) \<Longrightarrow>
   dict_get (callback_result body) ''reason'' x =
   dict_get body ''reason'' (JStr ''Manager denied the application'')"
  by (simp add: callback_result_def dict_get_def Let_def)

lemma run_big:
  assumes a: "ev_application_id event = Some a"
    and v: "validate_application e event = Inr vd"
    and dec: "get_scenario_decision (v_ssn_last4 vd) (v_loan_amount vd) \<noteq> ''denied''"
    and big: "100000 \<le> v_loan_amount vd"
    and fresh: "callbacks d = []"
    and ne: "a \<noteq> []"
    and cid: "mint d ''manager-approval'' \<noteq> []"
  shows "fst (lambda_handler e event (w, d)) = Suspend"
    and "snd (snd (lambda_handler e event (w, d))) =
           d\<lparr>callbacks := [\<lparr>cb_name = ''manager-approval'',
                             cb_id = mint d ''manager-approval'',
                             cb_timeout_minutes = 30, cb_state = Pending\<rparr>]\<rparr>"
    and "callback_id_of (fst (snd (lambda_handler e event (w, d)))) a =
           Some (mint d ''manager-approval'')"
    and "fst (approve a body (snd (lambda_handler e event (w, d)))) =
           Inr [(''status'', JStr ''approval_sent''),
                (''approved'', dict_get body ''approved'' (JBool False))]"
    and "snd (sys_run e event a (w, d) [Invoke, Approve body]) =
           d\<lparr>callbacks := [\<lparr>cb_name = ''manager-approval'',
                             cb_id = mint d ''manager-approval'',
                             cb_timeout_minutes = 30,
                             cb_state = Succeeded (JObj (callback_result body))\<rparr>]\<rparr>"
    and "callback_id_of (fst (sys_run e event a (w, d) [Invoke, Approve body])) a = None"
    and "invoked (fst (sys_run e event a (w, d) [Invoke, Approve body])) = invoked w"
proof -
  let ?cb = "\<lparr>cb_name = ''manager-approval'', cb_id = mint d ''manager-approval'',
               cb_timeout_minutes = 30, cb_state = Pending\<rparr>"
  let ?o1 = "lambda_handler e event (w, d)"
  let ?w1 = "fst (snd ?o1)"
  let ?d1 = "d\<lparr>callbacks := [?cb]\<rparr>"
  let ?d2 = "d\<lparr>callbacks := [?cb\<lparr>cb_state := Succeeded (JObj (callback_result body))\<rparr>]\<rparr>"
  have f: "find_callback d ''manager-approval'' = None"
    using fresh by (rule find_callback_fresh)
  note i1 = invoke_big_first [OF a v dec big f, of w]
  from i1 show "fst ?o1 = Suspend" by simp
  from i1 fresh show d1: "snd (snd ?o1) = ?d1" by simp
  from i1 show c1: "callback_id_of ?w1 a = Some (mint d ''manager-approval'')" by simp
  have inv1: "invoked ?w1 = invoked w" using i1 by simp
  from c1 obtain it where it: "table ?w1 a = Some it"
    and itc: "it_callback_id it = Some (mint d ''manager-approval'')"
    by (auto simp add: callback_id_of_def split: option.splits)
  have tok: "stored_token ?w1 a = Some (mint d ''manager-approval'')"
    using c1 cid by (simp add: stored_token_def)
  have snd1: "send_durable_execution_callback_success (mint d ''manager-approval'')
      (JObj (callback_result body)) ?d1 = Some ?d2"
    by (simp add: send_durable_execution_callback_success_def)
  let ?w2 = "?w1\<lparr>table := (table ?w1)(a \<mapsto> it\<lparr>it_callback_id := None\<rparr>)\<rparr>"
  have ap: "approve a body (?w1, ?d1) =
      (Inr [(''status'', JStr ''approval_sent''),
            (''approved'', dict_get body ''approved'' (JBool False))], ?w2, ?d2)"
    by (rule approve_accepted [OF ne it tok snd1])
  have s1: "snd ?o1 = (?w1, ?d1)" using d1 by (simp add: prod_eq_iff)
  from ap s1 show "fst (approve a body (snd ?o1)) =
      Inr [(''status'', JStr ''approval_sent''),
           (''approved'', dict_get body ''approved'' (JBool False))]"
    by simp
  have r2: "sys_run e event a (w, d) [Invoke, Approve body] = (?w2, ?d2)"
    using ap s1 by (simp add: sys_run_def sys_step_def)
  from r2 show "snd (sys_run e event a (w, d) [Invoke, Approve body]) =
           d\<lparr>callbacks := [\<lparr>cb_name = ''manager-approval'',
                             cb_id = mint d ''manager-approval'',
                             cb_timeout_minutes = 30,
                             cb_state = Succeeded (JObj (callback_result body))\<rparr>]\<rparr>"
    by simp
  from r2 show "callback_id_of (fst (sys_run e event a (w, d) [Invoke, Approve body])) a = None"
    by (simp add: callback_id_of_def)
  from r2 inv1 show "invoked (fst (sys_run e event a (w, d) [Invoke, Approve body])) = invoked w"
    by simp
qed

lemma run_big_denied:
  assumes a: "ev_application_id event = Some a"
    and v: "validate_application e event = Inr vd"
    and dec: "get_scenario_decision (v_ssn_last4 vd) (v_loan_amount vd) \<noteq> ''denied''"
    and big: "100000 \<le> v_loan_amount vd"
    and fresh: "callbacks d = []"
    and ne: "a \<noteq> []"
    and cid: "mint d ''manager-approval'' \<noteq> []"
    and no: "\<not> truthy (dict_get body ''approved'' (JBool False))"
  shows "fst (lambda_handler e event (sys_run e event a (w, d) [Invoke, Approve body])) =
           Done (manager_denied_result vd (callback_result body)) \<and>
         status_of (fst (sys_run e event a (w, d) [Invoke, Approve body, Invoke])) a =
           Some ''denied'' \<and>
         result_of (fst (sys_run e event a (w, d) [Invoke, Approve body, Invoke])) a =
           Some (JObj (manager_denied_result vd (callback_result body))) \<and>
         callback_id_of (fst (sys_run e event a (w, d) [Invoke, Approve body, Invoke])) a =
           None \<and>
         invoked (fst (sys_run e event a (w, d) [Invoke, Approve body, Invoke])) = invoked w \<and>
         \<not> entered (snd (sys_run e event a (w, d) [Invoke, Approve body, Invoke]))
             ''fraud-check''"
proof -
  let ?cb = "\<lparr>cb_name = ''manager-approval'', cb_id = mint d ''manager-approval'',
               cb_timeout_minutes = 30,
               cb_state = Succeeded (JObj (callback_result body))\<rparr>"
  let ?s2 = "sys_run e event a (w, d) [Invoke, Approve body]"
  note rb = run_big [OF a v dec big fresh ne cid]
  have d2: "snd ?s2 = d\<lparr>callbacks := [?cb]\<rparr>" using rb(5) by simp
  have f2: "find_callback (snd ?s2) ''manager-approval'' = Some ?cb"
    by (simp add: d2 find_callback_def)
  have st: "cb_state ?cb = Succeeded (JObj (callback_result body))" by simp
  have no': "\<not> truthy (dict_get (callback_result body) ''approved'' JNull)"
    using no by simp
  note i3 = invoke_big_denied [OF a v dec big f2 st no', of "fst ?s2"]
  have r3: "sys_run e event a (w, d) [Invoke, Approve body, Invoke] =
      snd (lambda_handler e event ?s2)"
    by (simp add: sys_run_def sys_step_def)
  have ne2: "\<not> entered (snd ?s2) ''fraud-check''"
    by (simp add: d2 entered_after_append)
  show ?thesis
    using i3 rb(6,7) ne2 unfolding r3 by simp
qed

lemma run_big_approved:
  assumes a: "ev_application_id event = Some a"
    and v: "validate_application e event = Inr vd"
    and dec: "get_scenario_decision (v_ssn_last4 vd) (v_loan_amount vd) \<noteq> ''denied''"
    and big: "100000 \<le> v_loan_amount vd"
    and fresh: "callbacks d = []"
    and ne: "a \<noteq> []"
    and cid: "mint d ''manager-approval'' \<noteq> []"
    and yes: "truthy (dict_get body ''approved'' (JBool False))"
  shows "fst (lambda_handler e event (sys_run e event a (w, d) [Invoke, Approve body])) =
           Suspend \<and>
         suspended_at (snd (sys_run e event a (w, d) [Invoke, Approve body, Invoke]))
           ''fraud-check'' \<and>
         status_of (fst (sys_run e event a (w, d) [Invoke, Approve body, Invoke])) a =
           Some ''processing'' \<and>
         callback_id_of (fst (sys_run e event a (w, d) [Invoke, Approve body, Invoke])) a =
           None \<and>
         invoked (fst (sys_run e event a (w, d) [Invoke, Approve body, Invoke])) =
           invoked w @
             [JObj [(''callback_id'',
                     JStr (mint (snd (sys_run e event a (w, d) [Invoke, Approve body]))
                             ''fraud-check'')),
                    (''application_id'', JStr a),
                    (''applicant_name'', JStr (v_applicant_name vd))]]"
proof -
  let ?cb = "\<lparr>cb_name = ''manager-approval'', cb_id = mint d ''manager-approval'',
               cb_timeout_minutes = 30,
               cb_state = Succeeded (JObj (callback_result body))\<rparr>"
  let ?s2 = "sys_run e event a (w, d) [Invoke, Approve body]"
  note rb = run_big [OF a v dec big fresh ne cid]
  have d2: "snd ?s2 = d\<lparr>callbacks := [?cb]\<rparr>" using rb(5) by simp
  have f2: "find_callback (snd ?s2) ''manager-approval'' = Some ?cb"
    by (simp add: d2 find_callback_def)
  have ff: "find_callback (snd ?s2) ''fraud-check'' = None"
    by (simp add: d2 find_callback_def)
  have st: "cb_state ?cb = Succeeded (JObj (callback_result body))" by simp
  have yes': "truthy (dict_get (callback_result body) ''approved'' JNull)"
    using yes by simp
  note i3 = invoke_big_approved_first [OF a v dec big f2 st yes' ff, of "fst ?s2"]
  have r3: "sys_run e event a (w, d) [Invoke, Approve body, Invoke] =
      snd (lambda_handler e event ?s2)"
    by (simp add: sys_run_def sys_step_def)
  have d3: "snd (snd (lambda_handler e event ?s2)) =
      (snd ?s2)\<lparr>callbacks := callbacks (snd ?s2) @ [\<lparr>cb_name = ''fraud-check'',
          cb_id = mint (snd ?s2) ''fraud-check'', cb_timeout_minutes = 5,
          cb_state = Pending\<rparr>]\<rparr>"
    using i3 by simp
  have su: "suspended_at (snd (snd (lambda_handler e event ?s2))) ''fraud-check''"
    unfolding d3 by (simp add: d2 suspended_at_def find_callback_def)
  show ?thesis
    using i3 rb(6,7) su unfolding r3 by simp
qed

lemma reason_of_manager_denied_result:
  "map_of (manager_denied_result vd r) ''reason'' =
   Some (dict_get r ''reason'' (JStr ''Manager denied the application'')) \<and>
   map_of (manager_denied_result vd r) ''status'' = Some (JStr ''denied'')"
  by (simp add: manager_denied_result_def)

text \<open>
  C8. For every application that passes validation and that the scenario table approves,
  with a loan of at least 100000, started on a host that holds no callback yet: the first
  invocation suspends at the manager approval. When the approval endpoint is then called
  with \<open>{approved: false, reason: r}\<close>, the next invocation returns the denied result, and
  the item has status \<open>denied\<close> and a result whose \<open>reason\<close> is \<open>r\<close>. When it is called
  with \<open>{approved: true}\<close>, the next invocation suspends at the fraud check, after
  invoking the fraud-check function.
\<close>

theorem manager_decision_resumes_workflow:
  assumes "ev_application_id event = Some a"
    and "validate_application e event = Inr vd"
    and "get_scenario_decision (v_ssn_last4 vd) (v_loan_amount vd) = ''approved''"
    and "100000 \<le> v_loan_amount vd"
    and "callbacks d = []"
    and "a \<noteq> []"
    and "mint d ''manager-approval'' \<noteq> []"
  shows "fst (lambda_handler e event (w, d)) = Suspend \<and>
    suspended_at (snd (snd (lambda_handler e event (w, d)))) ''manager-approval'' \<and>
    (map_of body ''approved'' = Some (JBool False) \<and> map_of body ''reason'' = Some reason \<longrightarrow>
       (\<exists>r. fst (lambda_handler e event (sys_run e event a (w, d) [Invoke, Approve body])) =
               Done r \<and>
            map_of r ''status'' = Some (JStr ''denied'') \<and>
            map_of r ''reason'' = Some reason \<and>
            result_of (fst (sys_run e event a (w, d) [Invoke, Approve body, Invoke])) a =
              Some (JObj r)) \<and>
       status_of (fst (sys_run e event a (w, d) [Invoke, Approve body, Invoke])) a =
         Some ''denied'') \<and>
    (map_of yes ''approved'' = Some (JBool True) \<longrightarrow>
       fst (lambda_handler e event (sys_run e event a (w, d) [Invoke, Approve yes])) =
         Suspend \<and>
       suspended_at (snd (sys_run e event a (w, d) [Invoke, Approve yes, Invoke]))
         ''fraud-check'' \<and>
       invoked (fst (sys_run e event a (w, d) [Invoke, Approve yes, Invoke])) =
         invoked w @
           [JObj [(''callback_id'',
                   JStr (mint (snd (sys_run e event a (w, d) [Invoke, Approve yes]))
                           ''fraud-check'')),
                  (''application_id'', JStr a),
                  (''applicant_name'', JStr (v_applicant_name vd))]])"
proof -
  have dec: "get_scenario_decision (v_ssn_last4 vd) (v_loan_amount vd) \<noteq> ''denied''"
    using assms(3) by simp
  note rb = run_big [OF assms(1,2) dec assms(4-7)]
  have su: "suspended_at (snd (snd (lambda_handler e event (w, d)))) ''manager-approval''"
    by (simp add: rb(2) suspended_at_single)
  have den: "(\<exists>r. fst (lambda_handler e event (sys_run e event a (w, d) [Invoke, Approve body])) =
               Done r \<and>
            map_of r ''status'' = Some (JStr ''denied'') \<and>
            map_of r ''reason'' = Some reason \<and>
            result_of (fst (sys_run e event a (w, d) [Invoke, Approve body, Invoke])) a =
              Some (JObj r)) \<and>
       status_of (fst (sys_run e event a (w, d) [Invoke, Approve body, Invoke])) a =
         Some ''denied''"
    if b: "map_of body ''approved'' = Some (JBool False)" "map_of body ''reason'' = Some reason"
  proof -
    have no: "\<not> truthy (dict_get body ''approved'' (JBool False))"
      using b by (simp add: dict_get_def)
    have rs: "dict_get (callback_result body) ''reason''
        (JStr ''Manager denied the application'') = reason"
      using b no by (simp add: reason_of_callback_result) (simp add: dict_get_def)
    note rd = run_big_denied [OF assms(1,2) dec assms(4-7) no, of w]
    show ?thesis
      using rd rs reason_of_manager_denied_result [of vd "callback_result body"]
      by (intro conjI exI [of _ "manager_denied_result vd (callback_result body)"]) simp_all
  qed
  have app: "fst (lambda_handler e event (sys_run e event a (w, d) [Invoke, Approve yes])) =
         Suspend \<and>
       suspended_at (snd (sys_run e event a (w, d) [Invoke, Approve yes, Invoke]))
         ''fraud-check'' \<and>
       invoked (fst (sys_run e event a (w, d) [Invoke, Approve yes, Invoke])) =
         invoked w @
           [JObj [(''callback_id'',
                   JStr (mint (snd (sys_run e event a (w, d) [Invoke, Approve yes]))
                           ''fraud-check'')),
                  (''application_id'', JStr a),
                  (''applicant_name'', JStr (v_applicant_name vd))]]"
    if b: "map_of yes ''approved'' = Some (JBool True)"
  proof -
    have y: "truthy (dict_get yes ''approved'' (JBool False))"
      using b by (simp add: dict_get_def)
    show ?thesis
      using run_big_approved [OF assms(1,2) dec assms(4-7) y, of w] by simp
  qed
  show ?thesis
    using rb(1) su den app by blast
qed

theorem manager_decision_resumes_workflow_witness:
  "validate_application ex_py (ex_event ''1111'' 150000) = Inr (ex_validated ''1111'' 150000) \<and>
   suspended_at (snd (snd (lambda_handler ex_py (ex_event ''1111'' 150000)
                             (ex_world, ex_host)))) ''manager-approval'' \<and>
   status_of (fst (sys_run ex_py (ex_event ''1111'' 150000) ''LOAN-1'' (ex_world, ex_host)
                [Invoke, Approve [(''approved'', JBool False), (''reason'', JStr ''too risky'')],
                 Invoke])) ''LOAN-1'' = Some ''denied'' \<and>
   suspended_at (snd (sys_run ex_py (ex_event ''1111'' 150000) ''LOAN-1'' (ex_world, ex_host)
                [Invoke, Approve [(''approved'', JBool True)], Invoke])) ''fraud-check''"
proof -
  have a: "ev_application_id (ex_event ''1111'' 150000) = Some ''LOAN-1''"
    by (simp add: ex_event_def)
  have v: "validate_application ex_py (ex_event ''1111'' 150000) =
      Inr (ex_validated ''1111'' 150000)"
    by (simp add: validate_ex_event)
  have g: "get_scenario_decision (v_ssn_last4 (ex_validated ''1111'' 150000))
      (v_loan_amount (ex_validated ''1111'' 150000)) = ''approved''"
    by (simp add: get_scenario_decision_def ex_validated_def)
  have l: "100000 \<le> v_loan_amount (ex_validated ''1111'' 150000)"
    by (simp add: ex_validated_def)
  have c: "callbacks ex_host = []" by (simp add: ex_host_def)
  have n: "''LOAN-1'' \<noteq> []" by simp
  have m: "mint ex_host ''manager-approval'' \<noteq> []" by (simp add: ex_host_def)
  show ?thesis
    using v manager_decision_resumes_workflow [OF a v g l c n m,
        where body = "[(''approved'', JBool False), (''reason'', JStr ''too risky'')]"
          and reason = "JStr ''too risky''" and yes = "[(''approved'', JBool True)]"
          and w = ex_world]
    by simp
qed

text \<open>
  C10. A body without the field \<open>approved\<close> is a denial. \<open>approve\<close> sends
  \<open>{approved: false, reason: r}\<close> where \<open>r\<close> is the reason of the body, or
  \<open>Manager denied the application\<close> when the body has none; for an application suspended at
  the manager approval (valid, approved by the scenario table, loan of at least 100000,
  first invocation on a host without callbacks) the host receives that payload, the next
  invocation returns the denied result, and the item has status \<open>denied\<close> and a result
  with that reason.
\<close>

theorem approve_without_flag_denies:
  assumes "ev_application_id event = Some a"
    and "validate_application e event = Inr vd"
    and "get_scenario_decision (v_ssn_last4 vd) (v_loan_amount vd) = ''approved''"
    and "100000 \<le> v_loan_amount vd"
    and "callbacks d = []"
    and "a \<noteq> []"
    and "mint d ''manager-approval'' \<noteq> []"
    and "map_of body ''approved'' = None"
  shows "callback_result body =
      [(''approved'', JBool False),
       (''reason'', case map_of body ''reason'' of
                      None \<Rightarrow> JStr ''Manager denied the application'' | Some r \<Rightarrow> r)] \<and>
    fst (approve a body (snd (lambda_handler e event (w, d)))) =
      Inr [(''status'', JStr ''approval_sent''), (''approved'', JBool False)] \<and>
    snd (sys_run e event a (w, d) [Invoke, Approve body]) =
      d\<lparr>callbacks := [\<lparr>cb_name = ''manager-approval'', cb_id = mint d ''manager-approval'',
                        cb_timeout_minutes = 30,
                        cb_state = Succeeded (JObj (callback_result body))\<rparr>]\<rparr> \<and>
    fst (lambda_handler e event (sys_run e event a (w, d) [Invoke, Approve body])) =
      Done (manager_denied_result vd (callback_result body)) \<and>
    map_of (manager_denied_result vd (callback_result body)) ''reason'' =
      Some (case map_of body ''reason'' of
              None \<Rightarrow> JStr ''Manager denied the application'' | Some r \<Rightarrow> r) \<and>
    status_of (fst (sys_run e event a (w, d) [Invoke, Approve body, Invoke])) a =
      Some ''denied'' \<and>
    result_of (fst (sys_run e event a (w, d) [Invoke, Approve body, Invoke])) a =
      Some (JObj (manager_denied_result vd (callback_result body)))"
proof -
  have dec: "get_scenario_decision (v_ssn_last4 vd) (v_loan_amount vd) \<noteq> ''denied''"
    using assms(3) by simp
  have ap: "dict_get body ''approved'' (JBool False) = JBool False"
    using assms(8) by (simp add: dict_get_def)
  have no: "\<not> truthy (dict_get body ''approved'' (JBool False))"
    by (simp add: ap)
  have cr: "callback_result body =
      [(''approved'', JBool False),
       (''reason'', case map_of body ''reason'' of
                      None \<Rightarrow> JStr ''Manager denied the application'' | Some r \<Rightarrow> r)]"
    using assms(8) by (simp add: callback_result_def dict_get_def Let_def)
  have rs: "map_of (manager_denied_result vd (callback_result body)) ''reason'' =
      Some (case map_of body ''reason'' of
              None \<Rightarrow> JStr ''Manager denied the application'' | Some r \<Rightarrow> r)"
    by (simp add: manager_denied_result_def cr dict_get_def)
  note rb = run_big [OF assms(1,2) dec assms(4-7)]
  note rd = run_big_denied [OF assms(1,2) dec assms(4-7) no, of w]
  have r4: "fst (approve a body (snd (lambda_handler e event (w, d)))) =
      Inr [(''status'', JStr ''approval_sent''), (''approved'', JBool False)]"
    using rb(4) by (simp add: ap)
  show ?thesis
    using cr rs r4 rb(5) rd by simp
qed

theorem approve_without_flag_denies_witness:
  "validate_application ex_py (ex_event ''1111'' 150000) = Inr (ex_validated ''1111'' 150000) \<and>
   map_of ([] :: (string \<times> json) list) ''approved'' = None \<and>
   callback_result [] =
     [(''approved'', JBool False), (''reason'', JStr ''Manager denied the application'')] \<and>
   status_of (fst (sys_run ex_py (ex_event ''1111'' 150000) ''LOAN-1'' (ex_world, ex_host)
                [Invoke, Approve [], Invoke])) ''LOAN-1'' = Some ''denied'' \<and>
   map_of (manager_denied_result (ex_validated ''1111'' 150000) (callback_result []))
     ''reason'' = Some (JStr ''Manager denied the application'')"
proof -
  have a: "ev_application_id (ex_event ''1111'' 150000) = Some ''LOAN-1''"
    by (simp add: ex_event_def)
  have v: "validate_application ex_py (ex_event ''1111'' 150000) =
      Inr (ex_validated ''1111'' 150000)"
    by (simp add: validate_ex_event)
  have g: "get_scenario_decision (v_ssn_last4 (ex_validated ''1111'' 150000))
      (v_loan_amount (ex_validated ''1111'' 150000)) = ''approved''"
    by (simp add: get_scenario_decision_def ex_validated_def)
  have l: "100000 \<le> v_loan_amount (ex_validated ''1111'' 150000)"
    by (simp add: ex_validated_def)
  have c: "callbacks ex_host = []" by (simp add: ex_host_def)
  have n: "''LOAN-1'' \<noteq> []" by simp
  have m: "mint ex_host ''manager-approval'' \<noteq> []" by (simp add: ex_host_def)
  have b: "map_of ([] :: (string \<times> json) list) ''approved'' = None" by simp
  show ?thesis
    using v approve_without_flag_denies [OF a v g l c n m b, of ex_world]
    by (simp add: manager_denied_result_def dict_get_def)
qed

section \<open>Suspensions, replays and timeouts\<close>

lemma prior_counts_of_log_call_other [simp]:
  "prior_counts_of (table (snd (log_call p a st m status l r s)) a') st' =
   prior_counts_of (table (snd s) a') st' + (if a' = a \<and> st' = st then 1 else 0)"
  by (simp add: snd_log_call log_progress_def prior_counts_of_def logs_of_def Let_def
        split: option.splits)

lemma prior_counts_of_submit_manager_approval [simp]:
  "prior_counts_of (table (submit_manager_approval a c w) a') st =
   prior_counts_of (table w a') st"
  by (simp add: prior_counts_of_def)

lemma find_snoc:
  "find P (xs @ [c]) =
   (case find P xs of None \<Rightarrow> if P c then Some c else None | Some x \<Rightarrow> Some x)"
  by (induction xs) simp_all

lemma find_callback_append:
  "find_callback (d\<lparr>callbacks := callbacks d @ [c]\<rparr>) name =
   (case find_callback d name of
      None \<Rightarrow> if cb_name c = name then Some c else None
    | Some x \<Rightarrow> Some x)"
  by (simp add: find_callback_def find_snoc)

lemma manager_passed_cases:
  "manager_passed vd d \<Longrightarrow>
   v_loan_amount vd < 100000 \<or>
   (100000 \<le> v_loan_amount vd \<and>
    (\<exists>c r. find_callback d ''manager-approval'' = Some c \<and> cb_state c = Succeeded (JObj r) \<and>
           truthy (dict_get r ''approved'' JNull)))"
  by (auto simp add: manager_passed_def split: option.splits callback_state.splits json.splits)

lemma invoke_fraud_first:
  assumes "ev_application_id event = Some a"
    and "validate_application e event = Inr vd"
    and "get_scenario_decision (v_ssn_last4 vd) (v_loan_amount vd) \<noteq> ''denied''"
    and "manager_passed vd d"
    and "find_callback d ''fraud-check'' = None"
  shows "fst (lambda_handler e event (w, d)) = Suspend \<and>
     snd (snd (lambda_handler e event (w, d))) =
       d\<lparr>callbacks := callbacks d @
          [\<lparr>cb_name = ''fraud-check'', cb_id = mint d ''fraud-check'',
            cb_timeout_minutes = 5, cb_state = Pending\<rparr>]\<rparr> \<and>
     invoked (fst (snd (lambda_handler e event (w, d)))) =
       invoked w @ [JObj [(''callback_id'', JStr (mint d ''fraud-check'')),
                          (''application_id'', JStr a),
                          (''applicant_name'', JStr (v_applicant_name vd))]] \<and>
     callback_id_of (fst (snd (lambda_handler e event (w, d)))) a = callback_id_of w a"
  using manager_passed_cases [OF assms(4)]
    invoke_small_first [OF assms(1,2,3) _ assms(5), of w]
    invoke_big_approved_first [OF assms(1,2,3) _ _ _ _ assms(5), of _ _ w]
  by blast

lemma invoke_fraud_pending:
  assumes "ev_application_id event = Some a"
    and "validate_application e event = Inr vd"
    and "get_scenario_decision (v_ssn_last4 vd) (v_loan_amount vd) \<noteq> ''denied''"
    and "manager_passed vd d"
    and "find_callback d ''fraud-check'' = Some c"
    and "cb_state c = Pending"
  shows "fst (lambda_handler e event (w, d)) = Suspend \<and>
     snd (snd (lambda_handler e event (w, d))) = d \<and>
     invoked (fst (snd (lambda_handler e event (w, d)))) = invoked w \<and>
     callback_id_of (fst (snd (lambda_handler e event (w, d)))) a = callback_id_of w a"
proof -
  from risk_of_three_ex obtain rk where
    rk: "calculate_risk_score e
     (map (\<lambda>b. pull_credit_report e b (v_ssn_last4 vd)) [''equifax'', ''transunion'', ''experian''])
     (v_ssn_last4 vd) (v_loan_amount vd) = Inr rk" and
    dec: "rk_decision rk = get_scenario_decision (v_ssn_last4 vd) (v_loan_amount vd)"
    by blast
  have a: "v_application_id vd = a" using assms(1,2) by (simp add: validated_id)
  from manager_passed_cases [OF assms(4)] show ?thesis
  proof
    assume "v_loan_amount vd < 100000"
    then show ?thesis
      using assms rk dec a
      by (simp add: lambda_handler_def handler_try_def manager_approval_step_def
            fraud_check_step_def wait_for_callback_def Let_def)
  next
    assume "100000 \<le> v_loan_amount vd \<and>
      (\<exists>c r. find_callback d ''manager-approval'' = Some c \<and> cb_state c = Succeeded (JObj r) \<and>
           truthy (dict_get r ''approved'' JNull))"
    then obtain cm r where "100000 \<le> v_loan_amount vd"
      "find_callback d ''manager-approval'' = Some cm" "cb_state cm = Succeeded (JObj r)"
      "truthy (dict_get r ''approved'' JNull)" by blast
    then show ?thesis
      using assms rk dec a
      by (simp add: lambda_handler_def handler_try_def manager_approval_step_def
            fraud_check_step_def wait_for_callback_def Let_def)
  qed
qed




lemma suspended_at_created:
  "find_callback d name = None \<Longrightarrow>
   suspended_at (d\<lparr>callbacks := callbacks d @
      [\<lparr>cb_name = name, cb_id = i, cb_timeout_minutes = t, cb_state = Pending\<rparr>]\<rparr>) name"
  by (simp add: suspended_at_def find_callback_append)

lemma suspended_atD:
  "suspended_at d name \<Longrightarrow> \<exists>c. find_callback d name = Some c \<and> cb_state c = Pending"
  by (auto simp add: suspended_at_def split: option.splits)

text \<open>
  C3, as the code has it. For a valid application that the risk decision does not deny:
  when the handler reaches the manager approval (loan of at least 100000) and the host
  holds no callback of that name, the submitter stores the fresh callback identifier in
  the item and invokes nothing; when it reaches the fraud check and the host holds no
  callback of that name, the submitter invokes the fraud-check function once with the
  fresh identifier in the payload and stores nothing in the item: the stored
  \<open>callback_id\<close> stays what it was. On a replay of either suspension point, while its
  callback is pending, neither submitter runs: the item's token, the invocations and the
  host's callbacks stay what they were.
\<close>

theorem submitters_run_once_per_suspension:
  assumes "ev_application_id event = Some a"
    and "validate_application e event = Inr vd"
    and "get_scenario_decision (v_ssn_last4 vd) (v_loan_amount vd) \<noteq> ''denied''"
  shows "(100000 \<le> v_loan_amount vd \<and> find_callback d ''manager-approval'' = None \<longrightarrow>
       fst (lambda_handler e event (w, d)) = Suspend \<and>
       suspended_at (snd (snd (lambda_handler e event (w, d)))) ''manager-approval'' \<and>
       callback_id_of (fst (snd (lambda_handler e event (w, d)))) a =
         Some (mint d ''manager-approval'') \<and>
       invoked (fst (snd (lambda_handler e event (w, d)))) = invoked w) \<and>
    (100000 \<le> v_loan_amount vd \<and> suspended_at d ''manager-approval'' \<longrightarrow>
       fst (lambda_handler e event (w, d)) = Suspend \<and>
       snd (snd (lambda_handler e event (w, d))) = d \<and>
       callback_id_of (fst (snd (lambda_handler e event (w, d)))) a = callback_id_of w a \<and>
       invoked (fst (snd (lambda_handler e event (w, d)))) = invoked w) \<and>
    (manager_passed vd d \<and> find_callback d ''fraud-check'' = None \<longrightarrow>
       fst (lambda_handler e event (w, d)) = Suspend \<and>
       suspended_at (snd (snd (lambda_handler e event (w, d)))) ''fraud-check'' \<and>
       invoked (fst (snd (lambda_handler e event (w, d)))) =
         invoked w @ [JObj [(''callback_id'', JStr (mint d ''fraud-check'')),
                            (''application_id'', JStr a),
                            (''applicant_name'', JStr (v_applicant_name vd))]] \<and>
       callback_id_of (fst (snd (lambda_handler e event (w, d)))) a = callback_id_of w a) \<and>
    (manager_passed vd d \<and> suspended_at d ''fraud-check'' \<longrightarrow>
       fst (lambda_handler e event (w, d)) = Suspend \<and>
       snd (snd (lambda_handler e event (w, d))) = d \<and>
       callback_id_of (fst (snd (lambda_handler e event (w, d)))) a = callback_id_of w a \<and>
       invoked (fst (snd (lambda_handler e event (w, d)))) = invoked w)"
proof (intro conjI impI)
  assume h: "100000 \<le> v_loan_amount vd \<and> find_callback d ''manager-approval'' = None"
  then have ge: "100000 \<le> v_loan_amount vd" and f: "find_callback d ''manager-approval'' = None"
    by simp_all
  note i = invoke_big_first [OF assms ge f, of w]
  from i show "fst (lambda_handler e event (w, d)) = Suspend" by simp
  from i suspended_at_created [OF f]
  show "suspended_at (snd (snd (lambda_handler e event (w, d)))) ''manager-approval''" by simp
  from i show "callback_id_of (fst (snd (lambda_handler e event (w, d)))) a =
         Some (mint d ''manager-approval'')" by simp
  from i show "invoked (fst (snd (lambda_handler e event (w, d)))) = invoked w" by simp
next
  assume h: "100000 \<le> v_loan_amount vd \<and> suspended_at d ''manager-approval''"
  then obtain c where ge: "100000 \<le> v_loan_amount vd"
    and f: "find_callback d ''manager-approval'' = Some c" and p: "cb_state c = Pending"
    using suspended_atD by blast
  note i = invoke_big_pending [OF assms ge f p, of w]
  from i show "fst (lambda_handler e event (w, d)) = Suspend" by simp
  from i show "snd (snd (lambda_handler e event (w, d))) = d" by simp
  from i show "callback_id_of (fst (snd (lambda_handler e event (w, d)))) a =
      callback_id_of w a" by simp
  from i show "invoked (fst (snd (lambda_handler e event (w, d)))) = invoked w" by simp
next
  assume h: "manager_passed vd d \<and> find_callback d ''fraud-check'' = None"
  then have mp: "manager_passed vd d" and f: "find_callback d ''fraud-check'' = None"
    by simp_all
  note i = invoke_fraud_first [OF assms mp f, of w]
  from i show "fst (lambda_handler e event (w, d)) = Suspend" by simp
  from i suspended_at_created [OF f]
  show "suspended_at (snd (snd (lambda_handler e event (w, d)))) ''fraud-check''" by simp
  from i show "invoked (fst (snd (lambda_handler e event (w, d)))) =
         invoked w @ [JObj [(''callback_id'', JStr (mint d ''fraud-check'')),
                            (''application_id'', JStr a),
                            (''applicant_name'', JStr (v_applicant_name vd))]]" by simp
  from i show "callback_id_of (fst (snd (lambda_handler e event (w, d)))) a =
      callback_id_of w a" by simp
next
  assume h: "manager_passed vd d \<and> suspended_at d ''fraud-check''"
  then obtain c where mp: "manager_passed vd d"
    and f: "find_callback d ''fraud-check'' = Some c" and p: "cb_state c = Pending"
    using suspended_atD by blast
  note i = invoke_fraud_pending [OF assms mp f p, of w]
  from i show "fst (lambda_handler e event (w, d)) = Suspend" by simp
  from i show "snd (snd (lambda_handler e event (w, d))) = d" by simp
  from i show "callback_id_of (fst (snd (lambda_handler e event (w, d)))) a =
      callback_id_of w a" by simp
  from i show "invoked (fst (snd (lambda_handler e event (w, d)))) = invoked w" by simp
qed

theorem submitters_run_once_per_suspension_witness:
  "validate_application ex_py (ex_event ''1111'' 150000) = Inr (ex_validated ''1111'' 150000) \<and>
   find_callback ex_host ''manager-approval'' = None \<and>
   callback_id_of (fst (snd (lambda_handler ex_py (ex_event ''1111'' 150000)
                              (ex_world, ex_host)))) ''LOAN-1'' =
     Some (mint ex_host ''manager-approval'') \<and>
   suspended_at ex_waiting_host ''manager-approval'' \<and>
   snd (snd (lambda_handler ex_py (ex_event ''1111'' 150000)
               (ex_waiting_world, ex_waiting_host))) = ex_waiting_host \<and>
   callback_id_of (fst (snd (lambda_handler ex_py (ex_event ''1111'' 150000)
                              (ex_waiting_world, ex_waiting_host)))) ''LOAN-1'' =
     callback_id_of ex_waiting_world ''LOAN-1'' \<and>
   validate_application ex_py (ex_event ''1111'' 50000) = Inr (ex_validated ''1111'' 50000) \<and>
   manager_passed (ex_validated ''1111'' 50000) ex_host \<and>
   find_callback ex_host ''fraud-check'' = None \<and>
   callback_id_of (fst (snd (lambda_handler ex_py (ex_event ''1111'' 50000)
                              (ex_world, ex_host)))) ''LOAN-1'' =
     callback_id_of ex_world ''LOAN-1''"
proof -
  have a: "\<And>s x. ev_application_id (ex_event s x) = Some ''LOAN-1''"
    by (simp add: ex_event_def)
  have v1: "validate_application ex_py (ex_event ''1111'' 150000) =
      Inr (ex_validated ''1111'' 150000)"
    by (simp add: validate_ex_event)
  have v2: "validate_application ex_py (ex_event ''1111'' 50000) =
      Inr (ex_validated ''1111'' 50000)"
    by (simp add: validate_ex_event)
  have g: "\<And>x. get_scenario_decision (v_ssn_last4 (ex_validated ''1111'' x))
      (v_loan_amount (ex_validated ''1111'' x)) \<noteq> ''denied''"
    by (simp add: get_scenario_decision_def ex_validated_def)
  have l: "100000 \<le> v_loan_amount (ex_validated ''1111'' 150000)"
    by (simp add: ex_validated_def)
  have f: "\<And>n. find_callback ex_host n = None"
    by (simp add: find_callback_def ex_host_def)
  have s: "suspended_at ex_waiting_host ''manager-approval''"
    by (simp add: suspended_at_def find_callback_def ex_waiting_host_def)
  have m: "manager_passed (ex_validated ''1111'' 50000) ex_host"
    by (simp add: manager_passed_def ex_validated_def)
  show ?thesis
    using v1 v2 l f s m
      submitters_run_once_per_suspension [OF a v1 g, of ex_host ex_world]
      submitters_run_once_per_suspension [OF a v1 g, of ex_waiting_host ex_waiting_world]
      submitters_run_once_per_suspension [OF a v2 g, of ex_host ex_world]
    by simp
qed

text \<open>
  C3 as stated fails for the fraud check: after the invocation that suspends there, the
  host holds the pending callback \<open>cb-fraud-check\<close>, the fraud-check function was invoked
  with it, and the item stores no callback token.
\<close>

theorem fraud_check_token_is_not_stored:
  "suspended_at (snd (snd (lambda_handler ex_py (ex_event ''1111'' 50000)
                             (ex_world, ex_host)))) ''fraud-check'' \<and>
   invoked (fst (snd (lambda_handler ex_py (ex_event ''1111'' 50000) (ex_world, ex_host)))) =
     [JObj [(''callback_id'', JStr ''cb-fraud-check''), (''application_id'', JStr ''LOAN-1''),
            (''applicant_name'', JStr ''Alice'')]] \<and>
   callback_id_of (fst (snd (lambda_handler ex_py (ex_event ''1111'' 50000)
                              (ex_world, ex_host)))) ''LOAN-1'' = None"
  by code_simp

section \<open>Timeouts\<close>







section \<open>The stored token along an execution\<close>

lemma offer_and_disburse_frame [simp]:
  "callback_id_of (snd (fst (snd (offer_and_disburse e p vd rk s d)))) a' =
     callback_id_of (snd s) a'"
  "snd (snd (offer_and_disburse e p vd rk s d)) = d"
  by (simp_all add: offer_and_disburse_def Let_def)

lemma fraud_check_step_token [simp]:
  "callback_id_of (snd (fst (snd (fraud_check_step e p vd rk s d)))) a' =
     callback_id_of (snd s) a'"
  by (simp add: fraud_check_step_def wait_for_callback_def Let_def
        split: option.splits callback_state.splits json.splits)

lemma fraud_check_step_host:
  "find_callback d n = Some cb \<Longrightarrow>
   find_callback (snd (snd (fraud_check_step e p vd rk s d))) n = Some cb"
  by (simp add: fraud_check_step_def wait_for_callback_def Let_def find_callback_append
        split: option.splits callback_state.splits json.splits)

lemma manager_approval_step_token:
  "callback_id_of (snd (fst (snd (manager_approval_step e p vd rk s d)))) a' =
     callback_id_of (snd s) a' \<or>
   (find_callback d ''manager-approval'' = None \<and>
    callback_id_of (snd (fst (snd (manager_approval_step e p vd rk s d)))) a' =
      Some (mint d ''manager-approval'') \<and>
    (\<exists>cb. find_callback (snd (snd (manager_approval_step e p vd rk s d)))
             ''manager-approval'' = Some cb \<and> cb_id cb = mint d ''manager-approval''))"
  by (simp add: manager_approval_step_def wait_for_callback_def Let_def find_callback_append
        split: option.splits callback_state.splits json.splits)

lemma manager_approval_step_host:
  "find_callback d n = Some cb \<Longrightarrow>
   find_callback (snd (snd (manager_approval_step e p vd rk s d))) n = Some cb"
  by (simp add: manager_approval_step_def wait_for_callback_def Let_def find_callback_append
        fraud_check_step_host
        split: option.splits callback_state.splits json.splits)

lemma handler_try_token:
  "callback_id_of (snd (fst (snd (handler_try e event a p s d)))) a' =
     callback_id_of (snd s) a' \<or>
   (find_callback d ''manager-approval'' = None \<and>
    callback_id_of (snd (fst (snd (handler_try e event a p s d)))) a' =
      Some (mint d ''manager-approval'') \<and>
    (\<exists>cb. find_callback (snd (snd (handler_try e event a p s d)))
             ''manager-approval'' = Some cb \<and> cb_id cb = mint d ''manager-approval''))"
proof (cases "validate_application e event")
  case (Inl err)
  then show ?thesis by (simp add: handler_try_def Let_def)
next
  case (Inr vd)
  from risk_of_three_ex obtain rk where
    rk: "calculate_risk_score e
     (map (\<lambda>b. pull_credit_report e b (v_ssn_last4 vd)) [''equifax'', ''transunion'', ''experian''])
     (v_ssn_last4 vd) (v_loan_amount vd) = Inr rk"
    by blast
  show ?thesis
  proof (cases "rk_decision rk = ''denied''")
    case True
    with Inr rk show ?thesis by (simp add: handler_try_def Let_def)
  next
    case False
    let ?s6 = "log_call p a ''risk_assessment''
        (''Risk tier: '' @ rk_risk_tier rk @ '', avg score: '' @
         str_float e (rk_average_score rk) @ '', decision: '' @ rk_decision rk)
        ''processing'' ''info'' None
        (log_call p a ''risk_assessment'' ''Calculating risk score...'' ''processing'' ''info'' None
          (log_call p a ''credit_check''
            (''Credit scores received: '' @
             join '', ''
              (map (\<lambda>r. cr_bureau r @ ''='' @ str_int e (cr_score r))
                (map (\<lambda>b. pull_credit_report e b (v_ssn_last4 vd))
                  [''equifax'', ''transunion'', ''experian''])))
            ''processing'' ''info'' None
            (log_call p a ''credit_check'' ''Pulling credit reports from 3 bureaus...''
              ''processing'' ''info'' None
              (log_call p a ''validating'' ''Application validated successfully''
                ''processing'' ''info'' None
                (log_call p a ''validating'' ''Validating loan application...''
                  ''processing'' ''info'' None s)))))"
    have eq: "handler_try e event a p s d = manager_approval_step e p vd rk ?s6 d"
      using Inr rk False by (simp add: handler_try_def Let_def)
    have c6: "callback_id_of (snd ?s6) a' = callback_id_of (snd s) a'" by simp
    show ?thesis
      using manager_approval_step_token [of e p vd rk ?s6 d a'] unfolding eq c6 .
  qed
qed

lemma handler_try_host:
  "find_callback d n = Some cb \<Longrightarrow>
   find_callback (snd (snd (handler_try e event a p s d))) n = Some cb"
  by (simp add: handler_try_def Let_def manager_approval_step_host split: sum.splits)

lemma lambda_handler_token:
  "callback_id_of (fst (snd (lambda_handler e event (w, d)))) a' = callback_id_of w a' \<or>
   (find_callback d ''manager-approval'' = None \<and>
    callback_id_of (fst (snd (lambda_handler e event (w, d)))) a' =
      Some (mint d ''manager-approval'') \<and>
    (\<exists>cb. find_callback (snd (snd (lambda_handler e event (w, d))))
             ''manager-approval'' = Some cb \<and> cb_id cb = mint d ''manager-approval''))"
proof (cases "ev_application_id event")
  case None
  then show ?thesis by (simp add: lambda_handler_def)
next
  case (Some a)
  let ?p = "prior_counts_of (table w a)"
  let ?t = "handler_try e event a ?p (no_calls, w) d"
  have w': "callback_id_of (fst (snd (lambda_handler e event (w, d)))) a' =
      callback_id_of (snd (fst (snd ?t))) a'"
    using Some
    by (cases ?t rule: prod_cases3; cases "fst ?t")
       (auto simp add: lambda_handler_def Let_def)
  have d': "snd (snd (lambda_handler e event (w, d))) = snd (snd ?t)"
    using Some
    by (cases ?t rule: prod_cases3; cases "fst ?t")
       (auto simp add: lambda_handler_def Let_def)
  show ?thesis
    using handler_try_token [of e event a ?p "(no_calls, w)" d a'] unfolding w' d' by simp
qed

lemma lambda_handler_host:
  "find_callback d n = Some cb \<Longrightarrow>
   find_callback (snd (snd (lambda_handler e event (w, d)))) n = Some cb"
proof (cases "ev_application_id event")
  case None
  assume "find_callback d n = Some cb"
  with None show ?thesis by (simp add: lambda_handler_def)
next
  case (Some a)
  assume f: "find_callback d n = Some cb"
  let ?p = "prior_counts_of (table w a)"
  let ?t = "handler_try e event a ?p (no_calls, w) d"
  have d': "snd (snd (lambda_handler e event (w, d))) = snd (snd ?t)"
    using Some
    by (cases ?t rule: prod_cases3; cases "fst ?t")
       (auto simp add: lambda_handler_def Let_def)
  show ?thesis unfolding d' using f by (rule handler_try_host)
qed


lemma complete_pending_ids:
  "complete_pending cid payload cs = Some cs' \<Longrightarrow>
   map_option cb_id (find (\<lambda>c. cb_name c = n) cs') =
   map_option cb_id (find (\<lambda>c. cb_name c = n) cs)"
  by (induction cs arbitrary: cs') (auto split: if_splits)

lemma send_ids:
  "send_durable_execution_callback_success cid payload d = Some d' \<Longrightarrow>
   map_option cb_id (find_callback d' n) = map_option cb_id (find_callback d n)"
  by (auto simp add: send_durable_execution_callback_success_def find_callback_def
        complete_pending_ids)

lemma expire_ids:
  "map_option cb_id (find_callback (expire name d) n) = map_option cb_id (find_callback d n)"
proof -
  have "map_option cb_id (find (\<lambda>c. cb_name c = n)
          (map (\<lambda>c. if cb_name c = name \<and> cb_state c = Pending
                    then c\<lparr>cb_state := TimedOut\<rparr> else c) cs)) =
        map_option cb_id (find (\<lambda>c. cb_name c = n) cs)" for cs
    by (induction cs) simp_all
  then show ?thesis by (simp add: expire_def find_callback_def)
qed

lemma approve_token:
  "callback_id_of (fst (snd (approve a body s))) a = callback_id_of (fst s) a \<or>
   callback_id_of (fst (snd (approve a body s))) a = None"
  by (auto simp add: approve_def callback_id_of_def Let_def split: option.splits)

lemma approve_ids:
  "map_option cb_id (find_callback (snd (snd (approve a body s))) n) =
   map_option cb_id (find_callback (snd s) n)"
  by (auto simp add: approve_def Let_def send_ids split: option.splits)

lemma fraud_check_handler_ids:
  "map_option cb_id (find_callback (snd (fraud_check_handler ev d)) n) =
   map_option cb_id (find_callback d n)"
  by (auto simp add: fraud_check_handler_def send_ids split: option.splits json.splits)

text \<open>What one action does to the stored token and to the host's callback identifiers.\<close>

lemma sys_step_token:
  "callback_id_of (fst (sys_step e event a s act)) a = callback_id_of (fst s) a \<or>
   callback_id_of (fst (sys_step e event a s act)) a = None \<or>
   (find_callback (snd s) ''manager-approval'' = None \<and>
    callback_id_of (fst (sys_step e event a s act)) a =
      map_option cb_id (find_callback (snd (sys_step e event a s act)) ''manager-approval''))"
proof (cases act)
  case Invoke
  show ?thesis
    using lambda_handler_token [of e event "fst s" "snd s" a] Invoke
    by (auto simp add: sys_step_def)
next
  case FraudService
  then show ?thesis
    by (auto simp add: sys_step_def split: list.splits)
next
  case (Approve body)
  then show ?thesis
    using approve_token [of a body s] by (auto simp add: sys_step_def)
next
  case (Expire name)
  then show ?thesis by (simp add: sys_step_def)
qed

lemma sys_step_ids:
  "find_callback (snd s) n \<noteq> None \<Longrightarrow>
   map_option cb_id (find_callback (snd (sys_step e event a s act)) n) =
   map_option cb_id (find_callback (snd s) n)"
proof (cases act)
  case Invoke
  assume "find_callback (snd s) n \<noteq> None"
  then obtain cb where "find_callback (snd s) n = Some cb" by auto
  from this lambda_handler_host [OF this, of e event "fst s"] Invoke
  show ?thesis by (simp add: sys_step_def)
next
  case FraudService
  then show ?thesis
    by (auto simp add: sys_step_def fraud_check_handler_ids split: list.splits json.splits)
next
  case (Approve body)
  then show ?thesis by (simp add: sys_step_def approve_ids)
next
  case (Expire name)
  then show ?thesis by (simp add: sys_step_def expire_ids)
qed

lemma sys_run_snoc:
  "sys_run e event a s (acts @ [act]) = sys_step e event a (sys_run e event a s acts) act"
  by (simp add: sys_run_def)

lemma stored_token_is_managers:
  assumes "callbacks d = []" and "callback_id_of w a = None"
  shows "callback_id_of (fst (sys_run e event a (w, d) acts)) a = None \<or>
         callback_id_of (fst (sys_run e event a (w, d) acts)) a =
           map_option cb_id (find_callback (snd (sys_run e event a (w, d) acts))
                               ''manager-approval'')"
proof (induction acts rule: rev_induct)
  case Nil
  then show ?case using assms by (simp add: sys_run_def)
next
  case (snoc act acts)
  let ?s = "sys_run e event a (w, d) acts"
  let ?s' = "sys_step e event a ?s act"
  note t = sys_step_token [of e event a ?s act]
  show ?case
  proof (cases "callback_id_of (fst ?s') a = None")
    case True
    then show ?thesis by (simp add: sys_run_snoc)
  next
    case False
    note nn = False
    show ?thesis
    proof (cases "find_callback (snd ?s) ''manager-approval''")
      case None
      then have "callback_id_of (fst ?s) a = None" using snoc.IH by auto
      with t nn show ?thesis by (auto simp add: sys_run_snoc)
    next
      case (Some cb)
      then have ids: "map_option cb_id (find_callback (snd ?s') ''manager-approval'') =
          map_option cb_id (find_callback (snd ?s) ''manager-approval'')"
        using sys_step_ids [of ?s "''manager-approval''" e event a act] by simp
      from t nn Some have "callback_id_of (fst ?s') a = callback_id_of (fst ?s) a" by auto
      with snoc.IH nn ids show ?thesis by (auto simp add: sys_run_snoc)
    qed
  qed
qed

text \<open>
  C4. Along every sequence of invocations, fraud-service answers, approval calls and
  timeouts of one execution, started on a host without callbacks with no token stored:
  the item's single \<open>callback_id\<close> attribute, when set, is the identifier of the host's
  manager-approval callback; and an action changes the stored token only by setting it
  when none is stored or by clearing it, never by replacing one token with another.
\<close>

theorem at_most_one_stored_token:
  assumes "callbacks d = []" and "callback_id_of w a = None"
  shows "(callback_id_of (fst (sys_run e event a (w, d) acts)) a = Some c \<longrightarrow>
           (\<exists>cb. find_callback (snd (sys_run e event a (w, d) acts)) ''manager-approval'' =
                   Some cb \<and> cb_id cb = c)) \<and>
         (callback_id_of (fst (sys_run e event a (w, d) (acts @ [act]))) a \<noteq>
            callback_id_of (fst (sys_run e event a (w, d) acts)) a \<longrightarrow>
          callback_id_of (fst (sys_run e event a (w, d) acts)) a = None \<or>
          callback_id_of (fst (sys_run e event a (w, d) (acts @ [act]))) a = None)"
proof -
  let ?s = "sys_run e event a (w, d) acts"
  note inv = stored_token_is_managers [OF assms, of e event acts]
  have one: "callback_id_of (fst ?s) a = Some c \<longrightarrow>
      (\<exists>cb. find_callback (snd ?s) ''manager-approval'' = Some cb \<and> cb_id cb = c)"
    using inv by auto
  have two: "callback_id_of (fst (sys_run e event a (w, d) (acts @ [act]))) a \<noteq>
            callback_id_of (fst ?s) a \<longrightarrow>
          callback_id_of (fst ?s) a = None \<or>
          callback_id_of (fst (sys_run e event a (w, d) (acts @ [act]))) a = None"
  proof (cases "find_callback (snd ?s) ''manager-approval''")
    case None
    then have "callback_id_of (fst ?s) a = None" using inv by auto
    then show ?thesis by simp
  next
    case (Some cb)
    then show ?thesis
      using sys_step_token [of e event a ?s act] by (auto simp add: sys_run_snoc)
  qed
  show ?thesis using one two by blast
qed

theorem at_most_one_stored_token_witness:
  "callbacks ex_host = [] \<and> callback_id_of ex_world ''LOAN-1'' = None \<and>
   callback_id_of (fst (sys_run ex_py (ex_event ''1111'' 150000) ''LOAN-1'' (ex_world, ex_host)
                          [Invoke])) ''LOAN-1'' = Some ''cb-manager-approval'' \<and>
   (\<exists>cb. find_callback (snd (sys_run ex_py (ex_event ''1111'' 150000) ''LOAN-1''
                               (ex_world, ex_host) [Invoke])) ''manager-approval'' = Some cb \<and>
         cb_id cb = ''cb-manager-approval'') \<and>
   callback_id_of (fst (sys_run ex_py (ex_event ''1111'' 150000) ''LOAN-1'' (ex_world, ex_host)
                          ([Invoke] @ [Approve [(''approved'', JBool True)]]))) ''LOAN-1'' =
     None"
proof -
  have c: "callbacks ex_host = []" by (simp add: ex_host_def)
  have n: "callback_id_of ex_world ''LOAN-1'' = None"
    by (simp add: callback_id_of_def ex_world_def ex_item_def)
  have s1: "callback_id_of (fst (sys_run ex_py (ex_event ''1111'' 150000) ''LOAN-1''
      (ex_world, ex_host) [Invoke])) ''LOAN-1'' = Some ''cb-manager-approval''"
    by code_simp
  have s2: "callback_id_of (fst (sys_run ex_py (ex_event ''1111'' 150000) ''LOAN-1''
      (ex_world, ex_host) ([Invoke] @ [Approve [(''approved'', JBool True)]]))) ''LOAN-1'' =
     None"
    by code_simp
  show ?thesis
    using c n s1 s2
      at_most_one_stored_token [OF c n, of ex_py "ex_event ''1111'' 150000" "[Invoke]"
        "''cb-manager-approval''" "Approve [(''approved'', JBool True)]"]
    by simp
qed

end
